theory Spec2Isabelle
  imports Main "HOL-Library.Multiset" "HOL-Library.List_Lexorder" "HOL-Library.Char_ord"
begin

section \<open>Strings as the program sees them\<close>

text \<open>
  A JavaScript string is modelled as a \<^typ>\<open>string\<close>: a list of characters, each read as
  one code unit below 256 (ASCII and Latin-1). Code units from 256 on are outside the
  model. The functions of this section are the methods of \<^verbatim>\<open>String.prototype\<close> that the
  program calls, each with the semantics ECMAScript gives it on that range.
\<close>

definition startsWith :: "string \<Rightarrow> string \<Rightarrow> bool" where
  "startsWith s p = (take (length p) s = p)"

definition endsWith :: "string \<Rightarrow> string \<Rightarrow> bool" where
  "endsWith s p = (length p \<le> length s \<and> drop (length s - length p) s = p)"

text \<open>
  \<^verbatim>\<open>s.slice(start, end)\<close>: a negative index counts from the end of the string, and both
  indices are clamped to the string. \<^verbatim>\<open>-0\<close> is \<^verbatim>\<open>0\<close>.
\<close>

definition slice_index :: "nat \<Rightarrow> int \<Rightarrow> nat" where
  "slice_index len i = (if i < 0 then nat (max (int len + i) 0) else min (nat i) len)"

definition slice :: "string \<Rightarrow> int \<Rightarrow> int \<Rightarrow> string" where
  "slice s start fin =
     (let from = slice_index (length s) start; to = slice_index (length s) fin
      in take (to - from) (drop from s))"

text \<open>
  White space as \<^verbatim>\<open>trim()\<close> and the regular-expression class \<^verbatim>\<open>\s\<close> see it: tab, line
  feed, vertical tab, form feed, carriage return, space and the no-break space.
\<close>

definition isWhiteSpace :: "char \<Rightarrow> bool" where
  "isWhiteSpace c = ((of_char c :: nat) \<in> {9, 10, 11, 12, 13, 32, 160})"

definition trim :: "string \<Rightarrow> string" where
  "trim s = rev (dropWhile isWhiteSpace (rev (dropWhile isWhiteSpace s)))"

text \<open>
  \<^verbatim>\<open>toLowerCase()\<close>: the letters A to Z, and the Latin-1 capitals (192 to 222 but the
  multiplication sign 215), move 32 code units up.
\<close>

definition lowerChar :: "char \<Rightarrow> char" where
  "lowerChar c =
     (let n = (of_char c :: nat)
      in if (65 \<le> n \<and> n \<le> 90) \<or> (192 \<le> n \<and> n \<le> 222 \<and> n \<noteq> 215)
         then char_of (n + 32) else c)"

definition toLowerCase :: "string \<Rightarrow> string" where
  "toLowerCase s = map lowerChar s"

text \<open>The class \<^verbatim>\<open>[a-z0-9]\<close>.\<close>

definition isSlugChar :: "char \<Rightarrow> bool" where
  "isSlugChar c =
     (let n = (of_char c :: nat) in (97 \<le> n \<and> n \<le> 122) \<or> (48 \<le> n \<and> n \<le> 57))"

text \<open>
  \<^verbatim>\<open>.replace(/[^a-z0-9]+/g, '-')\<close>: the scan goes left to right; at a character outside the
  class the greedy \<^verbatim>\<open>+\<close> takes the whole run of such characters, one hyphen is written for
  it, and the scan goes on behind the run.
\<close>

function replaceNonSlugRuns :: "string \<Rightarrow> string" where
  "replaceNonSlugRuns [] = []"
| "replaceNonSlugRuns (c # cs) =
     (if isSlugChar c then c # replaceNonSlugRuns cs
      else CHR ''-'' # replaceNonSlugRuns (dropWhile (\<lambda>x. \<not> isSlugChar x) cs))"
  by pat_completeness auto
termination
  by (relation "measure length") (auto simp: less_Suc_eq_le length_dropWhile_le)

text \<open>
  \<^verbatim>\<open>.replace(/^-+|-+$/g, '')\<close>: the first alternative matches the hyphens the string starts
  with, the second a run of hyphens that reaches the end of the string; a run in the
  middle matches neither.
\<close>

definition isHyphen :: "char \<Rightarrow> bool" where
  "isHyphen c = (c = CHR ''-'')"

definition stripEdgeHyphens :: "string \<Rightarrow> string" where
  "stripEdgeHyphens s = rev (dropWhile isHyphen (rev (dropWhile isHyphen s)))"

text \<open>\<^verbatim>\<open>.replace(/\\/g, '/')\<close>.\<close>

definition backslashesToSlashes :: "string \<Rightarrow> string" where
  "backslashesToSlashes s = map (\<lambda>c. if c = CHR 0x5C then CHR ''/'' else c) s"

text \<open>\<^verbatim>\<open>.replace(/\.md$/, r)\<close>: a string that ends in \<^verbatim>\<open>.md\<close> gets \<^verbatim>\<open>r\<close> for it.\<close>

definition replaceMdSuffix :: "string \<Rightarrow> string \<Rightarrow> string" where
  "replaceMdSuffix s r = (if endsWith s ''.md'' then take (length s - 3) s @ r else s)"


section \<open>Slugs\<close>

text \<open>
  \<^verbatim>\<open>generateSlug\<close> of the page-metadata module, the slug function of the build, and
  \<^verbatim>\<open>labelSlug\<close> of the browser entry point, the one the label router calls.
\<close>

definition generateSlug :: "string \<Rightarrow> string" where
  "generateSlug text = stripEdgeHyphens (replaceNonSlugRuns (trim (toLowerCase text)))"

definition labelSlug :: "string \<Rightarrow> string" where
  "labelSlug text = stripEdgeHyphens (replaceNonSlugRuns (trim (toLowerCase text)))"

text \<open>
  The contract in its own words, written as one pass over the text: lowercase, trim;
  then every run of characters outside \<^verbatim>\<open>[a-z0-9]\<close> becomes a single hyphen (the flag says
  that the scan is inside such a run, whose hyphen is already written); then the hyphens
  at both ends go.
\<close>

fun collapseRuns :: "bool \<Rightarrow> string \<Rightarrow> string" where
  "collapseRuns inRun [] = []"
| "collapseRuns inRun (c # cs) =
     (if isSlugChar c then c # collapseRuns False cs
      else if inRun then collapseRuns True cs
      else CHR ''-'' # collapseRuns True cs)"

definition trimHyphens :: "string \<Rightarrow> string" where
  "trimHyphens s =
     (let t = dropWhile isHyphen s
      in take (length t - length (takeWhile isHyphen (rev t))) t)"

definition slugContract :: "string \<Rightarrow> string" where
  "slugContract text = trimHyphens (collapseRuns False (trim (toLowerCase text)))"

text \<open>
  Modelled from the spec: \<^verbatim>\<open>generateLabelSlug\<close> of the page-index module, which the
  builder calls for the directory of a label page, is not among the sources. The spec
  binds it to the slug contract.
\<close>

definition generateLabelSlug :: "string \<Rightarrow> string" where
  "generateLabelSlug label = slugContract label"


section \<open>Paths of the builder\<close>

text \<open>
  \<^verbatim>\<open>path.extname\<close> of the platform (POSIX flavour), as Node implements it: one scan from
  the end of the path to the start of its last component. The record holds the local
  variables of that scan, \<^verbatim>\<open>-1\<close> standing for "not seen yet" as it does there.
\<close>

record extname_vars =
  startDot :: int
  startPart :: int
  endPos :: int
  matchedSlash :: bool
  preDotState :: int

text \<open>
  The loop \<^verbatim>\<open>for (i = path.length - 1; i >= 0; --i)\<close>; the second argument is \<^verbatim>\<open>i + 1\<close>.
  A slash behind the last component ends the loop; slashes at the very end are skipped.
\<close>

fun extname_loop :: "string \<Rightarrow> nat \<Rightarrow> extname_vars \<Rightarrow> extname_vars" where
  "extname_loop path 0 v = v"
| "extname_loop path (Suc i) v =
     (let code = path ! i in
      if code = CHR ''/'' then
        (if \<not> matchedSlash v then v\<lparr>startPart := int i + 1\<rparr>
         else extname_loop path i v)
      else
        (let v1 = (if endPos v = -1 then v\<lparr>matchedSlash := False, endPos := int i + 1\<rparr> else v);
             v2 = (if code = CHR ''.'' then
                     (if startDot v1 = -1 then v1\<lparr>startDot := int i\<rparr>
                      else if preDotState v1 \<noteq> 1 then v1\<lparr>preDotState := 1\<rparr>
                      else v1)
                   else if startDot v1 \<noteq> -1 then v1\<lparr>preDotState := -1\<rparr>
                   else v1)
         in extname_loop path i v2))"

definition extname :: "string \<Rightarrow> string" where
  "extname path =
     (let v = extname_loop path (length path)
                \<lparr>startDot = -1, startPart = 0, endPos = -1, matchedSlash = True, preDotState = 0\<rparr>
      in if startDot v = -1 \<or> endPos v = -1 \<or> preDotState v = 0
            \<or> (preDotState v = 1 \<and> startDot v = endPos v - 1 \<and> startDot v = startPart v + 1)
         then [] else slice path (startDot v) (endPos v))"

text \<open>\<^verbatim>\<open>SiteBuilder.getOutputPath\<close>.\<close>

definition getOutputPath :: "string \<Rightarrow> string" where
  "getOutputPath relativePath =
     (let ext = extname relativePath;
          base = backslashesToSlashes (slice relativePath 0 (- int (length ext)))
      in if base = ''index'' \<or> endsWith base ''/index'' then base @ ''.html''
         else base @ ''/index.html'')"

text \<open>
  \<^verbatim>\<open>SiteBuilder.getUrlPath\<close>; \<^verbatim>\<open>basePath\<close> is \<^verbatim>\<open>process.env.BASE_PATH || ''\<close>, read by the
  caller.
\<close>

definition getUrlPath :: "string \<Rightarrow> string \<Rightarrow> string" where
  "getUrlPath basePath relativePath =
     (let urlPath = backslashesToSlashes (replaceMdSuffix relativePath [])
      in if urlPath = ''index'' then basePath @ ''/''
         else
           (let urlPath1 = (if endsWith urlPath ''/index''
                            then slice urlPath 0 (- int (length ''/index'')) else urlPath);
                urlPath2 = (if \<not> startsWith urlPath1 ''/'' then ''/'' @ urlPath1 else urlPath1)
            in basePath @ urlPath2))"

text \<open>
  \<^verbatim>\<open>SiteBuilder.isActivePath\<close>. The empty string is falsy, so \<^verbatim>\<open>basePath && \<dots>\<close> and
  \<^verbatim>\<open>href.slice(\<dots>) || '/'\<close> test for it.
\<close>

definition isActivePath :: "string \<Rightarrow> string \<Rightarrow> string \<Rightarrow> bool" where
  "isActivePath basePath href filePath =
     (let cleanHref =
            (if basePath \<noteq> [] \<and> startsWith href basePath
             then (let h = slice href (int (length basePath)) (int (length href))
                   in if h \<noteq> [] then h else ''/'')
             else href);
          urlPath = ''/'' @ backslashesToSlashes (replaceMdSuffix filePath ''.html'')
      in if cleanHref = ''/'' then urlPath = ''/index.html'' \<or> filePath = ''index.md''
         else startsWith urlPath (cleanHref @ ''/'') \<or> urlPath = cleanHref @ ''.html'')"


section \<open>Values of the platform\<close>

text \<open>
  An exception is a value: \<^verbatim>\<open>Error\<close> with its message, or the \<^verbatim>\<open>RangeError\<close> or the
  \<^verbatim>\<open>TypeError\<close> of the platform. A function that can throw returns a sum, its left side the
  exception.
\<close>

datatype error = Error string | RangeError string | TypeError string

text \<open>A \<^verbatim>\<open>Date\<close> object: a time value in milliseconds, or the invalid date.\<close>

datatype js_date = InvalidDate | TimeValue int

datatype PageType = Page | Post | Section

definition nl :: string where
  "nl = [CHR 0x0A]"

text \<open>\<^verbatim>\<open>parts.join(sep)\<close> for an array of strings.\<close>

fun joinWith :: "string \<Rightarrow> string list \<Rightarrow> string" where
  "joinWith sep [] = []"
| "joinWith sep [x] = x"
| "joinWith sep (x # y # ys) = x @ sep @ joinWith sep (y # ys)"

text \<open>A non-negative integer in a template literal: its decimal digits.\<close>

fun showNat :: "nat \<Rightarrow> string" where
  "showNat n = (if n < 10 then [char_of (48 + n)] else showNat (n div 10) @ [char_of (48 + n mod 10)])"

declare showNat.simps [simp del]

text \<open>
  A value of a metadata header, as the header parser hands it over: absent
  (\<^verbatim>\<open>undefined\<close>), \<^verbatim>\<open>null\<close>, a boolean, a number, a string, a list, or a date. A number is
  one whose value is an integer; nested mappings are outside the model.
\<close>

datatype jsval = Undefined | Null | Bool bool | Num int | Str string | Arr "jsval list" | Dat js_date

text \<open>Truthiness, as \<^verbatim>\<open>!value\<close>, \<^verbatim>\<open>value ? a : b\<close> and \<^verbatim>\<open>value || other\<close> test it.\<close>

fun truthy :: "jsval \<Rightarrow> bool" where
  "truthy Undefined = False"
| "truthy Null = False"
| "truthy (Bool b) = b"
| "truthy (Num n) = (n \<noteq> 0)"
| "truthy (Str s) = (s \<noteq> [])"
| "truthy (Arr xs) = True"
| "truthy (Dat d) = True"

definition showInt :: "int \<Rightarrow> string" where
  "showInt i = (if i < 0 then CHR ''-'' # showNat (nat (- i)) else showNat (nat i))"

text \<open>
  \<^verbatim>\<open>FrontmatterData\<close>, the header of a document as a mapping from keys to values, with the
  keys the program reads. The cast \<^verbatim>\<open>as string\<close>, through which the program reads some of
  them, checks nothing: every key holds the value as the parser gave it, whatever its
  kind.
\<close>

record FrontmatterData =
  fm_ShortURI :: jsval
  fm_title :: jsval
  fm_Title :: jsval
  fm_Type :: jsval
  fm_Category :: jsval
  fm_Labels :: jsval
  fm_Parent :: jsval
  fm_Order :: jsval
  fm_Author :: jsval
  fm_Date :: jsval
  fm_Description :: jsval
  fm_description :: jsval
  fm_Keywords :: jsval
  fm_keywords :: jsval
  fm_Template :: jsval

text \<open>The header without a key: \<^verbatim>\<open>{}\<close>.\<close>

definition emptyFrontmatter :: FrontmatterData where
  "emptyFrontmatter =
     \<lparr>fm_ShortURI = Undefined, fm_title = Undefined, fm_Title = Undefined, fm_Type = Undefined,
      fm_Category = Undefined, fm_Labels = Undefined, fm_Parent = Undefined, fm_Order = Undefined,
      fm_Author = Undefined, fm_Date = Undefined, fm_Description = Undefined,
      fm_description = Undefined, fm_Keywords = Undefined, fm_keywords = Undefined,
      fm_Template = Undefined\<rparr>"

text \<open>\<^verbatim>\<open>a || b\<close>: the first value when it is truthy, the second otherwise.\<close>

definition orElse :: "jsval \<Rightarrow> jsval \<Rightarrow> jsval" where
  "orElse a b = (if truthy a then a else b)"

text \<open>
  \<^verbatim>\<open>PageMetadata\<close>, \<^verbatim>\<open>NavItem\<close> and \<^verbatim>\<open>ChildPageData\<close> as they are at run time: a field that
  \<^verbatim>\<open>parsePageMetadata\<close> fills through \<^verbatim>\<open>String\<close>, \<^verbatim>\<open>Number\<close> or a check is of the kind its
  type names; a field it fills through the cast holds whatever the header held.
\<close>

record PageMetadata =
  pm_shortUri :: string
  pm_title :: jsval
  pm_type :: PageType
  pm_category :: jsval
  pm_labels :: "string list"
  pm_parent :: string
  pm_order :: int
  pm_author :: jsval
  pm_date :: "js_date option"
  pm_description :: jsval
  pm_keywords :: "string list"
  pm_template :: jsval

record NavItem =
  nav_label :: jsval
  nav_href :: string
  nav_active :: "bool option"
  nav_hxBoost :: "bool option"
  nav_order :: "int option"

record ChildPageData =
  child_title :: jsval
  child_url :: string
  child_description :: jsval
  child_date :: "js_date option"
  child_category :: jsval
  child_labels :: "string list"
  child_author :: jsval
  child_type :: PageType
  child_shortUri :: string
  child_order :: int

record PageIndexEntry =
  pie_url :: string
  pie_title :: string
  pie_description :: string
  pie_labels :: "string list"
  pie_category :: string
  pie_date :: "string option"

text \<open>The page of a label listing, as the builder hands it to the \<^verbatim>\<open>LabelIndex\<close> component.\<close>

record LabelIndexPage =
  lip_url :: string
  lip_title :: string
  lip_description :: string
  lip_category :: string
  lip_date :: "string option"

text \<open>
  What the program takes from modules that are not among the sources, and from the
  platform where its result rests on locale, calendar or grammar tables. Every function
  of the model that reaches one of them takes the record as its first argument.
\<close>

record collaborators =
  classNames :: "string list \<Rightarrow> string"
  LabelFooter_render :: "string list \<Rightarrow> string"
  toLocaleDateString :: "int \<Rightarrow> string"
  toISOString :: "int \<Rightarrow> string"
  Date_toString :: "js_date \<Rightarrow> string"
  Date_parse :: "string \<Rightarrow> js_date"
  Number_ofString :: "string \<Rightarrow> int option"
  Number_toExponential :: "int \<Rightarrow> string"
  localeCompare :: "string \<Rightarrow> string \<Rightarrow> int"
  sortAbrupt :: "(NavItem \<Rightarrow> NavItem \<Rightarrow> error + int) \<Rightarrow> NavItem list \<Rightarrow> error + NavItem list"
  path_join :: "string list \<Rightarrow> string"
  path_dirname :: "string \<Rightarrow> string"
  JSON_stringify :: "PageIndexEntry list \<Rightarrow> string"
  parseFrontmatter :: "string \<Rightarrow> error + FrontmatterData \<times> string"
  compileWithFrontmatter :: "string \<Rightarrow> error + string \<times> FrontmatterData"
  processChildrenDirectives :: "string \<Rightarrow> ChildPageData list \<Rightarrow> error + string"
  generatePageIndex :: "(PageMetadata \<times> string) list \<Rightarrow> error + PageIndexEntry list"
  LabelIndex_render :: "string \<Rightarrow> LabelIndexPage list \<Rightarrow> string"

text \<open>
  \<^verbatim>\<open>String(value)\<close>, which is also what a template literal prints. A number below
  \<^verbatim>\<open>1e21\<close> in size prints its decimal digits; from there on it prints in exponent notation,
  whose digits are the platform's. A list prints its elements with commas between them,
  \<^verbatim>\<open>null\<close> and \<^verbatim>\<open>undefined\<close> among them as nothing.
\<close>

fun toStr :: "collaborators \<Rightarrow> jsval \<Rightarrow> string" where
  "toStr P Undefined = ''undefined''"
| "toStr P Null = ''null''"
| "toStr P (Bool b) = (if b then ''true'' else ''false'')"
| "toStr P (Num n) =
     (if \<bar>n\<bar> < 1000000000000000000000 then showInt n else Number_toExponential P n)"
| "toStr P (Str s) = s"
| "toStr P (Arr xs) =
     joinWith '','' (map (\<lambda>x. if x = Undefined \<or> x = Null then [] else toStr P x) xs)"
| "toStr P (Dat d) = Date_toString P d"

text \<open>\<^verbatim>\<open>array.join(sep)\<close> for a list of header values.\<close>

definition joinValues :: "collaborators \<Rightarrow> string \<Rightarrow> jsval list \<Rightarrow> string" where
  "joinValues P sep xs =
     joinWith sep (map (\<lambda>x. if x = Undefined \<or> x = Null then [] else toStr P x) xs)"

text \<open>\<^verbatim>\<open>Number(value)\<close>; \<^const>\<open>None\<close> is \<^verbatim>\<open>NaN\<close>.\<close>

definition toNumber :: "collaborators \<Rightarrow> jsval \<Rightarrow> int option" where
  "toNumber P v =
     (case v of
        Undefined \<Rightarrow> None
      | Null \<Rightarrow> Some 0
      | Bool b \<Rightarrow> Some (if b then 1 else 0)
      | Num n \<Rightarrow> Some n
      | Str s \<Rightarrow> Number_ofString P s
      | Arr xs \<Rightarrow> Number_ofString P (toStr P (Arr xs))
      | Dat d \<Rightarrow> (case d of InvalidDate \<Rightarrow> None | TimeValue t \<Rightarrow> Some t))"

text \<open>
  \<^verbatim>\<open>new Date(value)\<close>: a date is copied, a string parsed, a number is the time value as
  long as it is within 8.64e15 milliseconds of the epoch.
\<close>

definition newDate :: "collaborators \<Rightarrow> jsval \<Rightarrow> js_date" where
  "newDate P v =
     (case v of
        Dat d \<Rightarrow> d
      | Str s \<Rightarrow> Date_parse P s
      | Arr xs \<Rightarrow> Date_parse P (toStr P (Arr xs))
      | Undefined \<Rightarrow> InvalidDate
      | _ \<Rightarrow> (case toNumber P v of
                None \<Rightarrow> InvalidDate
              | Some t \<Rightarrow> if \<bar>t\<bar> \<le> 8640000000000000 then TimeValue t else InvalidDate))"


section \<open>The tag engine\<close>

text \<open>
  \<^verbatim>\<open>TemplateContext\<close>. Raw frontmatter is carried along and read by no tag; the model keeps
  its keys.
\<close>

record TemplateContext =
  ctx_title :: string
  ctx_content :: string
  ctx_description :: string
  ctx_keywords :: string
  ctx_basePath :: string
  ctx_navigation :: "NavItem list"
  ctx_siteLabels :: "string list"
  ctx_frontmatter :: "string list"
  ctx_cssFiles :: "string list"
  ctx_jsFiles :: "string list"
  ctx_author :: string
  ctx_date :: "js_date option"
  ctx_category :: string
  ctx_labels :: "string list"
  ctx_type :: PageType

text \<open>
  \<^verbatim>\<open>html.replace(/<[^>]*>/g, ' ')\<close>: an opening angle bracket with a closing one somewhere
  behind it is replaced, up to the first closing one, by a space.
\<close>

function stripTags :: "string \<Rightarrow> string" where
  "stripTags [] = []"
| "stripTags (c # cs) =
     (if c = CHR ''<'' \<and> CHR ''>'' \<in> set cs
      then CHR '' '' # stripTags (tl (dropWhile (\<lambda>x. x \<noteq> CHR ''>'') cs))
      else c # stripTags cs)"
  by pat_completeness auto
termination
proof (relation "measure length")
  show "wf (measure length)" by simp
next
  fix c :: char and cs :: string
  have "length (tl (dropWhile (\<lambda>x. x \<noteq> CHR ''>'') cs)) \<le> length cs"
    using length_dropWhile_le[of "\<lambda>x. x \<noteq> CHR ''>''" cs] by simp
  then show "(tl (dropWhile (\<lambda>x. x \<noteq> CHR ''>'') cs), c # cs) \<in> measure length"
    by simp
next
  fix c :: char and cs :: string
  show "(cs, c # cs) \<in> measure length" by simp
qed

text \<open>\<^verbatim>\<open>text.split(/\s+/)\<close>.\<close>

function splitWhiteSpace :: "string \<Rightarrow> string list" where
  "splitWhiteSpace s =
     (let w = takeWhile (\<lambda>x. \<not> isWhiteSpace x) s; r = dropWhile (\<lambda>x. \<not> isWhiteSpace x) s
      in if r = [] then [w] else w # splitWhiteSpace (dropWhile isWhiteSpace r))"
  by pat_completeness auto
termination
proof (relation "measure length")
  show "wf (measure length)" by simp
next
  fix s w r :: string
  assume r: "r = dropWhile (\<lambda>x. \<not> isWhiteSpace x) s" and ne: "r \<noteq> []"
  then have "isWhiteSpace (hd r)"
    using hd_dropWhile[of "\<lambda>x. \<not> isWhiteSpace x" s] by simp
  then have "dropWhile isWhiteSpace r = dropWhile isWhiteSpace (tl r)"
    using ne by (cases r) simp_all
  moreover have "length (dropWhile isWhiteSpace (tl r)) \<le> length (tl r)"
    by (rule length_dropWhile_le)
  moreover have "length (tl r) < length r"
    using ne by (cases r) simp_all
  moreover have "length r \<le> length s"
    unfolding r by (rule length_dropWhile_le)
  ultimately show "(dropWhile isWhiteSpace r, s) \<in> measure length"
    by simp
qed

declare splitWhiteSpace.simps [simp del]

text \<open>
  \<^verbatim>\<open>estimateReadingTime\<close>. \<^verbatim>\<open>Math.round(words / 200)\<close> rounds a half up, so it is the
  quotient of \<^verbatim>\<open>words + 100\<close> by 200.
\<close>

definition estimateReadingTime :: "string \<Rightarrow> nat" where
  "estimateReadingTime html =
     (let text = stripTags html;
          words = length (filter (\<lambda>w. length w > 0) (splitWhiteSpace text))
      in max 1 ((words + 100) div 200))"

text \<open>
  \<^verbatim>\<open>formatDate\<close> and \<^verbatim>\<open>date.toISOString()\<close>. The invalid date prints as \<^verbatim>\<open>Invalid Date\<close> and has
  no ISO string: asking for it throws.
\<close>

definition formatDate :: "collaborators \<Rightarrow> js_date \<Rightarrow> string" where
  "formatDate P date =
     (case date of InvalidDate \<Rightarrow> ''Invalid Date'' | TimeValue t \<Rightarrow> toLocaleDateString P t)"

definition date_toISOString :: "collaborators \<Rightarrow> js_date \<Rightarrow> error + string" where
  "date_toISOString P date =
     (case date of InvalidDate \<Rightarrow> Inl (RangeError ''Invalid time value'')
      | TimeValue t \<Rightarrow> Inr (toISOString P t))"

text \<open>\<^verbatim>\<open>renderHead\<close> and \<^verbatim>\<open>renderFootScripts\<close> of the template helpers.\<close>

definition renderHead ::
  "string \<Rightarrow> string \<Rightarrow> string \<Rightarrow> string \<Rightarrow> string list \<Rightarrow> string list \<Rightarrow> string" where
  \<open>renderHead title basePath description keywords cssFiles jsFiles =
     (let lang = ''en'';
          descTag = (if description \<noteq> []
                     then nl @ ''    <meta name="description" content="'' @ description @ ''">''
                     else []);
          kwTag = (if keywords \<noteq> []
                   then nl @ ''    <meta name="keywords" content="'' @ keywords @ ''">''
                   else []);
          extraCss = concat (map (\<lambda>f. nl @ ''    <link rel="stylesheet" href="'' @ f @ ''">'') cssFiles);
          extraJs = concat (map (\<lambda>f. nl @ ''    <script src="'' @ f @ ''"></script>'') jsFiles)
      in ''<!DOCTYPE html>'' @ nl
         @ ''<html lang="'' @ lang @ ''">'' @ nl
         @ ''<head>'' @ nl
         @ ''    <meta charset="UTF-8">'' @ nl
         @ ''    <meta name="viewport" content="width=device-width, initial-scale=1.0">''
         @ descTag @ kwTag @ nl
         @ ''    <meta name="base-path" content="'' @ basePath @ ''">'' @ nl
         @ ''    <title>'' @ title @ ''</title>'' @ nl
         @ ''    <link rel="stylesheet" href="'' @ basePath @ ''/assets/main.css">''
         @ extraCss @ extraJs @ nl
         @ ''</head>'')\<close>

definition renderFootScripts :: "string \<Rightarrow> string" where
  \<open>renderFootScripts basePath = ''    <script src="'' @ basePath @ ''/assets/main.js"></script>''\<close>

text \<open>
  \<^verbatim>\<open>Navigation.render({ items })\<close>: the component's \<^verbatim>\<open>render\<close> with \<^verbatim>\<open>className\<close> at its
  default, the empty string. An absent \<^verbatim>\<open>active\<close> or \<^verbatim>\<open>hxBoost\<close> is falsy.
\<close>

definition Navigation_item :: "collaborators \<Rightarrow> NavItem \<Rightarrow> string" where
  \<open>Navigation_item P item =
     (let isActive = (nav_active item = Some True);
          linkClasses = classNames P
            [''px-2 sm:px-4 py-1.5 sm:py-2 text-xs sm:text-sm font-medium rounded-md transition-colors duration-200'',
             if isActive then ''text-blue-600 bg-blue-50''
             else ''text-gray-700 hover:text-blue-600 hover:bg-gray-50''];
          hxBoostAttr = (if nav_hxBoost item = Some True then '' hx-boost="true"'' else []);
          ariaCurrent = (if isActive then '' aria-current="page"'' else [])
      in ''            <a href="'' @ nav_href item @ ''" class="'' @ linkClasses @ ''"''
         @ hxBoostAttr @ ariaCurrent @ ''>'' @ toStr P (nav_label item) @ ''</a>'')\<close>

definition Navigation_render :: "collaborators \<Rightarrow> NavItem list \<Rightarrow> string" where
  \<open>Navigation_render P items =
     (let navClasses = classNames P [''bg-white shadow-sm border-b border-gray-200'', []];
          itemsHtml = joinWith nl (map (Navigation_item P) items)
      in ''<nav class="'' @ navClasses @ ''">'' @ nl
         @ ''    <div class="max-w-7xl mx-auto px-4 sm:px-6 lg:px-8">'' @ nl
         @ ''        <div class="flex flex-wrap gap-1 sm:gap-2 py-3 sm:py-0 sm:h-16 items-center">'' @ nl
         @ itemsHtml @ nl
         @ ''        </div>'' @ nl
         @ ''    </div>'' @ nl
         @ ''</nav>'')\<close>

definition categoryPill :: "string \<Rightarrow> string" where
  \<open>categoryPill category =
     ''<span class="inline-block bg-blue-100 text-blue-800 text-xs font-medium px-2.5 py-0.5 rounded">''
     @ category @ ''</span>''\<close>

definition labelBadge :: "string \<Rightarrow> string" where
  \<open>labelBadge l =
     ''<span class="text-xs bg-gray-100 text-gray-600 px-2 py-1 rounded-full">'' @ l @ ''</span>''\<close>

text \<open>The case \<^verbatim>\<open>blog-header\<close> of \<^verbatim>\<open>resolveTag\<close>; the separator of the byline is a middle dot.\<close>

definition blogHeader :: "collaborators \<Rightarrow> TemplateContext \<Rightarrow> error + string" where
  \<open>blogHeader P ctx =
     (let readTime = estimateReadingTime (ctx_content ctx);
          authorPart = (if ctx_author ctx \<noteq> []
                        then [''<span class="byline">'' @ ctx_author ctx @ ''</span>''] else [])
      in case (case ctx_date ctx of
                 None \<Rightarrow> Inr []
               | Some d \<Rightarrow>
                   (case date_toISOString P d of
                      Inl e \<Rightarrow> Inl e
                    | Inr isoString \<Rightarrow>
                        Inr [''<time datetime="'' @ slice isoString 0 10 @ ''">''
                             @ formatDate P d @ ''</time>''])) of
           Inl e \<Rightarrow> Inl e
         | Inr datePart \<Rightarrow>
            (let bylineParts = authorPart @ datePart
                   @ [''<span class="reading-time">'' @ showNat readTime @ '' min read</span>''];
                 bylineHtml = (if length bylineParts > 0
                   then ''<div class="flex flex-wrap items-center gap-3 text-sm text-gray-500 mt-2">''
                        @ joinWith [CHR '' '', CHR 0xB7, CHR '' ''] bylineParts @ ''</div>''
                   else []);
                 categoryHtml = (if ctx_category ctx \<noteq> [] then categoryPill (ctx_category ctx) else []);
                 labelsHtml = (if length (ctx_labels ctx) > 0
                   then ''<div class="flex flex-wrap gap-2 mt-3">''
                        @ concat (map labelBadge (ctx_labels ctx)) @ ''</div>''
                   else [])
             in Inr (''<header class="mb-8 border-b border-gray-200 pb-6">'' @ nl
                  @ ''        '' @ categoryHtml @ nl
                  @ ''        <h1 class="text-3xl font-bold text-gray-900 mt-2">'' @ ctx_title ctx @ ''</h1>'' @ nl
                  @ ''        '' @ bylineHtml @ nl
                  @ ''        '' @ labelsHtml @ nl
                  @ ''      </header>'')))\<close>

text \<open>\<^verbatim>\<open>resolveTag\<close>: the \<^verbatim>\<open>switch\<close> over the tag name, case by case, and its default.\<close>

definition resolveTag :: "collaborators \<Rightarrow> string \<Rightarrow> TemplateContext \<Rightarrow> error + string" where
  \<open>resolveTag P tagName ctx =
     (if tagName = ''head'' then
        Inr (renderHead (ctx_title ctx) (ctx_basePath ctx) (ctx_description ctx) (ctx_keywords ctx)
               (ctx_cssFiles ctx) (ctx_jsFiles ctx))
      else if tagName = ''navigation'' then
        Inr (if length (ctx_navigation ctx) > 0 then Navigation_render P (ctx_navigation ctx) else [])
      else if tagName = ''content'' then Inr (ctx_content ctx)
      else if tagName = ''label-footer'' then
        Inr (if length (ctx_siteLabels ctx) > 0 then LabelFooter_render P (ctx_siteLabels ctx) else [])
      else if tagName = ''foot-scripts'' then Inr (renderFootScripts (ctx_basePath ctx))
      else if tagName = ''blog-header'' then blogHeader P ctx
      else if tagName = ''title'' then Inr (ctx_title ctx)
      else if tagName = ''description'' then Inr (ctx_description ctx)
      else if tagName = ''keywords'' then Inr (ctx_keywords ctx)
      else if tagName = ''author'' then Inr (ctx_author ctx)
      else if tagName = ''category'' then Inr (ctx_category ctx)
      else if tagName = ''basePath'' then Inr (ctx_basePath ctx)
      else if tagName = ''formatted-date'' then
        Inr (case ctx_date ctx of None \<Rightarrow> [] | Some d \<Rightarrow> formatDate P d)
      else if tagName = ''reading-time'' then
        Inr (showNat (estimateReadingTime (ctx_content ctx)) @ '' min read'')
      else if tagName = ''category-pill'' then
        Inr (if ctx_category ctx \<noteq> [] then categoryPill (ctx_category ctx) else [])
      else if tagName = ''label-badges'' then
        Inr (if length (ctx_labels ctx) > 0 then concat (map labelBadge (ctx_labels ctx)) else [])
      else Inr (''{{'' @ tagName @ ''}}''))\<close>

text \<open>The tag names that have a case of their own.\<close>

definition builtinTags :: "string list" where
  "builtinTags =
     [''head'', ''navigation'', ''content'', ''label-footer'', ''foot-scripts'', ''blog-header'',
      ''title'', ''description'', ''keywords'', ''author'', ''category'', ''basePath'',
      ''formatted-date'', ''reading-time'', ''category-pill'', ''label-badges'']"

definition isTagTruthy :: "collaborators \<Rightarrow> string \<Rightarrow> TemplateContext \<Rightarrow> error + bool" where
  "isTagTruthy P tagName ctx =
     (case resolveTag P tagName ctx of Inl e \<Rightarrow> Inl e | Inr v \<Rightarrow> Inr (length v > 0))"

text \<open>
  The two regular expressions of \<^verbatim>\<open>processTemplate\<close>, each as the function that tries a
  match at the start of the text it is given.

  \<^verbatim>\<open>(\S+?)\}\}\<close>: the lazy group takes one character that is not white space, and one more
  as long as no \<^verbatim>\<open>}}\<close> follows. The result is the tag name and the text behind the braces.
\<close>

fun lazyTagName :: "string \<Rightarrow> (string \<times> string) option" where
  "lazyTagName [] = None"
| "lazyTagName (c # cs) =
     (if isWhiteSpace c then None
      else if startsWith cs ''}}'' then Some ([c], drop 2 cs)
      else (case lazyTagName cs of None \<Rightarrow> None | Some (name, rest) \<Rightarrow> Some (c # name, rest)))"

text \<open>
  \<^verbatim>\<open>([\s\S]*?)\{\{\/if\}\}\<close> and the like: the text before the first occurrence of a marker,
  and the text behind it.
\<close>

fun splitAtFirst :: "string \<Rightarrow> string \<Rightarrow> (string \<times> string) option" where
  "splitAtFirst m [] = (if m = [] then Some ([], []) else None)"
| "splitAtFirst m (c # cs) =
     (if startsWith (c # cs) m then Some ([], drop (length m) (c # cs))
      else (case splitAtFirst m cs of None \<Rightarrow> None | Some (before, after) \<Rightarrow> Some (c # before, after)))"

text \<open>
  \<^verbatim>\<open>/\{\{#if\s+(\S+?)\}\}([\s\S]*?)\{\{\/if\}\}/\<close> at the start of \<^verbatim>\<open>s\<close>: tag name, block and the
  text behind the match. A longer tag name is never tried with success: where no
  \<^verbatim>\<open>{{/if}}\<close> follows the first \<^verbatim>\<open>}}\<close>, none follows a later one.
\<close>

definition matchConditional :: "string \<Rightarrow> (string \<times> string \<times> string) option" where
  "matchConditional s =
     (if startsWith s ''{{#if'' \<and> takeWhile isWhiteSpace (drop 5 s) \<noteq> [] then
        (case lazyTagName (dropWhile isWhiteSpace (drop 5 s)) of
           None \<Rightarrow> None
         | Some (tagName, r) \<Rightarrow>
             (case splitAtFirst ''{{/if}}'' r of
                None \<Rightarrow> None
              | Some (block, rest) \<Rightarrow> Some (tagName, block, rest)))
      else None)"

text \<open>\<^verbatim>\<open>/\{\{(\S+?)\}\}/\<close> at the start of \<^verbatim>\<open>s\<close>: tag name and the text behind the match.\<close>

definition matchPlaceholder :: "string \<Rightarrow> (string \<times> string) option" where
  "matchPlaceholder s = (if startsWith s ''{{'' then lazyTagName (drop 2 s) else None)"

lemma lazyTagName_shorter: "lazyTagName s = Some (name, rest) \<Longrightarrow> length rest < length s"
  by (induction s arbitrary: name rest) (auto split: if_splits option.splits)

lemma splitAtFirst_shorter: "splitAtFirst m s = Some (before, after) \<Longrightarrow> length after \<le> length s"
  by (induction s arbitrary: before after) (auto split: if_splits option.splits)

lemma matchConditional_shorter:
  "matchConditional s = Some (tagName, block, rest) \<Longrightarrow> length rest < length s"
proof -
  assume m: "matchConditional s = Some (tagName, block, rest)"
  then obtain r where
    n: "lazyTagName (dropWhile isWhiteSpace (drop 5 s)) = Some (tagName, r)" and
    b: "splitAtFirst ''{{/if}}'' r = Some (block, rest)"
    by (auto simp: matchConditional_def split: if_splits option.splits)
  have "length r < length (dropWhile isWhiteSpace (drop 5 s))"
    by (rule lazyTagName_shorter[OF n])
  moreover have "length (dropWhile isWhiteSpace (drop 5 s)) \<le> length (drop 5 s)"
    by (rule length_dropWhile_le)
  moreover have "length rest \<le> length r"
    by (rule splitAtFirst_shorter[OF b])
  ultimately show ?thesis by simp
qed

lemma matchPlaceholder_shorter:
  "matchPlaceholder s = Some (tagName, rest) \<Longrightarrow> length rest < length s"
  by (auto simp: matchPlaceholder_def split: if_splits dest!: lazyTagName_shorter)

text \<open>
  Step 1 of \<^verbatim>\<open>processTemplate\<close>: \<^verbatim>\<open>template.replace\<close> with the conditional expression, global.
  Where the expression matches, the callback decides between the block and the empty
  string, and the scan goes on behind the match; elsewhere the character stays. An
  exception of the callback ends the replacement.
\<close>

function resolveConditionals :: "collaborators \<Rightarrow> TemplateContext \<Rightarrow> string \<Rightarrow> error + string" where
  "resolveConditionals P ctx [] = Inr []"
| "resolveConditionals P ctx (c # cs) =
     (case matchConditional (c # cs) of
        Some (tagName, block, rest) \<Rightarrow>
          (case isTagTruthy P tagName ctx of
             Inl e \<Rightarrow> Inl e
           | Inr keep \<Rightarrow>
               (case resolveConditionals P ctx rest of
                  Inl e \<Rightarrow> Inl e
                | Inr out \<Rightarrow> Inr ((if keep then block else []) @ out)))
      | None \<Rightarrow>
          (case resolveConditionals P ctx cs of
             Inl e \<Rightarrow> Inl e
           | Inr out \<Rightarrow> Inr (c # out)))"
  by pat_completeness auto
termination
  by (relation "measure (\<lambda>(P, ctx, s). length s)") (auto dest: matchConditional_shorter)

text \<open>Step 2: \<^verbatim>\<open>result.replace\<close> with the placeholder expression, global.\<close>

function replacePlaceholders :: "collaborators \<Rightarrow> TemplateContext \<Rightarrow> string \<Rightarrow> error + string" where
  "replacePlaceholders P ctx [] = Inr []"
| "replacePlaceholders P ctx (c # cs) =
     (case matchPlaceholder (c # cs) of
        Some (tagName, rest) \<Rightarrow>
          (case resolveTag P tagName ctx of
             Inl e \<Rightarrow> Inl e
           | Inr v \<Rightarrow>
               (case replacePlaceholders P ctx rest of
                  Inl e \<Rightarrow> Inl e
                | Inr out \<Rightarrow> Inr (v @ out)))
      | None \<Rightarrow>
          (case replacePlaceholders P ctx cs of
             Inl e \<Rightarrow> Inl e
           | Inr out \<Rightarrow> Inr (c # out)))"
  by pat_completeness auto
termination
  by (relation "measure (\<lambda>(P, ctx, s). length s)") (auto dest: matchPlaceholder_shorter)

definition processTemplate :: "collaborators \<Rightarrow> string \<Rightarrow> TemplateContext \<Rightarrow> error + string" where
  "processTemplate P template ctx =
     (case resolveConditionals P ctx template of
        Inl e \<Rightarrow> Inl e
      | Inr result \<Rightarrow> replacePlaceholders P ctx result)"

text \<open>The tag names that step 2 finds in a text, in order.\<close>

function placeholderNames :: "string \<Rightarrow> string list" where
  "placeholderNames [] = []"
| "placeholderNames (c # cs) =
     (case matchPlaceholder (c # cs) of
        Some (tagName, rest) \<Rightarrow> tagName # placeholderNames rest
      | None \<Rightarrow> placeholderNames cs)"
  by pat_completeness auto
termination
  by (relation "measure length") (auto dest: matchPlaceholder_shorter)


text \<open>The tag names that step 1 finds in a text, in order.\<close>

function conditionalNames :: "string \<Rightarrow> string list" where
  "conditionalNames [] = []"
| "conditionalNames (c # cs) =
     (case matchConditional (c # cs) of
        Some (tagName, block, rest) \<Rightarrow> tagName # conditionalNames rest
      | None \<Rightarrow> conditionalNames cs)"
  by pat_completeness auto
termination
  by (relation "measure length") (auto dest: matchConditional_shorter)


section \<open>Page metadata\<close>

text \<open>\<^verbatim>\<open>parseStringArray\<close>.\<close>

definition parseStringArray :: "collaborators \<Rightarrow> jsval \<Rightarrow> string list" where
  "parseStringArray P v =
     (if \<not> truthy v then []
      else case v of Arr xs \<Rightarrow> map (toStr P) xs | _ \<Rightarrow> [toStr P v])"

text \<open>
  \<^verbatim>\<open>VALID_TYPES.includes(type)\<close>, with the type it finds: a value that is no string is none
  of the three.
\<close>

definition parsePageType :: "jsval \<Rightarrow> PageType option" where
  "parsePageType t =
     (if t = Str ''page'' then Some Page
      else if t = Str ''post'' then Some Post
      else if t = Str ''section'' then Some Section
      else None)"

text \<open>\<^verbatim>\<open>parsePageMetadata\<close>. It throws what the header parser throws, and its own two errors.\<close>

definition parsePageMetadata :: "collaborators \<Rightarrow> string \<Rightarrow> error + PageMetadata" where
  \<open>parsePageMetadata P content =
     (case parseFrontmatter P content of
        Inl e \<Rightarrow> Inl e
      | Inr (data, body) \<Rightarrow>
          if \<not> truthy (fm_ShortURI data) then Inl (Error ''Short-URI is required'')
          else
            (let shortUri = trim (toStr P (fm_ShortURI data));
                 type = orElse (fm_Type data) (Str ''page'')
             in case parsePageType type of
                  None \<Rightarrow>
                    Inl (Error (''Invalid Type: "'' @ toStr P type
                                @ ''". Must be one of: page, post, section''))
                | Some pageType \<Rightarrow>
                    (let parent = (if fm_Parent data = Null \<or> fm_Parent data = Undefined
                                      \<or> fm_Parent data = Str []
                                   then Str ''root'' else fm_Parent data);
                         labels = parseStringArray P (fm_Labels data);
                         keywords = parseStringArray P (fm_Keywords data);
                         order = (if fm_Order data \<noteq> Undefined \<and> fm_Order data \<noteq> Null
                                  then toNumber P (fm_Order data) else Some 999)
                     in Inr \<lparr>pm_shortUri = shortUri,
                             pm_title = orElse (fm_title data) (orElse (fm_Title data) (Str shortUri)),
                             pm_type = pageType,
                             pm_category = orElse (fm_Category data) (Str []),
                             pm_labels = labels,
                             pm_parent = toStr P parent,
                             pm_order = (case order of None \<Rightarrow> 999 | Some n \<Rightarrow> n),
                             pm_author = orElse (fm_Author data) (Str []),
                             pm_date = (if truthy (fm_Date data)
                                        then Some (newDate P (fm_Date data)) else None),
                             pm_description = orElse (fm_Description data) (Str []),
                             pm_keywords = keywords,
                             pm_template = orElse (fm_Template data) (Str ''default'')\<rparr>)))\<close>


section \<open>The layout\<close>

text \<open>
  \<^verbatim>\<open>Layout.render\<close>, with \<^verbatim>\<open>lang\<close> at its default. Title, description and keywords are
  whatever the header held, printed where the template literal takes them in.
\<close>

definition Layout_render ::
  "collaborators \<Rightarrow> jsval \<Rightarrow> jsval \<Rightarrow> jsval \<Rightarrow> string \<Rightarrow> string list \<Rightarrow> string list
     \<Rightarrow> string list \<Rightarrow> string \<Rightarrow> string" where
  \<open>Layout_render P title description keywords children cssFiles jsFiles siteLabels basePath =
     (let lang = ''en'';
          cssLinks = joinWith nl (map (\<lambda>file. ''    <link rel="stylesheet" href="'' @ file @ ''">'') cssFiles);
          jsScripts = joinWith nl (map (\<lambda>file. ''    <script src="'' @ file @ ''"></script>'') jsFiles)
      in ''<!DOCTYPE html>'' @ nl
         @ ''<html lang="'' @ lang @ ''">'' @ nl
         @ ''<head>'' @ nl
         @ ''    <meta charset="UTF-8">'' @ nl
         @ ''    <meta name="viewport" content="width=device-width, initial-scale=1.0">'' @ nl
         @ ''    '' @ (if truthy description
                       then ''<meta name="description" content="'' @ toStr P description @ ''">''
                       else []) @ nl
         @ ''    '' @ (if truthy keywords
                       then ''<meta name="keywords" content="'' @ toStr P keywords @ ''">''
                       else []) @ nl
         @ ''    <meta name="base-path" content="'' @ basePath @ ''">'' @ nl
         @ ''    <title>'' @ toStr P title @ ''</title>'' @ nl
         @ ''    <link rel="stylesheet" href="'' @ basePath @ ''/assets/main.css">'' @ nl
         @ cssLinks @ nl
         @ jsScripts @ nl
         @ ''</head>'' @ nl
         @ ''<body class="min-h-screen bg-gray-50">'' @ nl
         @ ''    <div id="app" class="flex flex-col min-h-screen">'' @ nl
         @ ''        '' @ children @ nl
         @ ''        '' @ (if length siteLabels > 0 then LabelFooter_render P siteLabels else []) @ nl
         @ ''    </div>'' @ nl
         @ ''    <script src="'' @ basePath @ ''/assets/main.js"></script>'' @ nl
         @ ''</body>'' @ nl
         @ ''</html>'')\<close>

text \<open>\<^verbatim>\<open>PageData\<close> and \<^verbatim>\<open>TemplateEngine.renderPage\<close>.\<close>

record PageData =
  pd_title :: jsval
  pd_content :: string
  pd_path :: string
  pd_description :: jsval
  pd_keywords :: jsval
  pd_frontmatter :: "FrontmatterData option"
  pd_navigation :: "NavItem list option"
  pd_cssFiles :: "string list option"
  pd_jsFiles :: "string list option"
  pd_siteLabels :: "string list option"
  pd_basePath :: "string option"

definition mainOpen :: string where
  \<open>mainOpen = ''<main class="flex-grow max-w-7xl mx-auto px-4 sm:px-6 lg:px-8 py-8">''\<close>

definition renderPage :: "collaborators \<Rightarrow> PageData \<Rightarrow> string" where
  "renderPage P data =
     (let frontmatter = (case pd_frontmatter data of None \<Rightarrow> emptyFrontmatter | Some f \<Rightarrow> f);
          cssFiles = (case pd_cssFiles data of None \<Rightarrow> [] | Some x \<Rightarrow> x);
          jsFiles = (case pd_jsFiles data of None \<Rightarrow> [] | Some x \<Rightarrow> x);
          siteLabels = (case pd_siteLabels data of None \<Rightarrow> [] | Some x \<Rightarrow> x);
          basePath = (case pd_basePath data of None \<Rightarrow> [] | Some x \<Rightarrow> x);
          pageTitle = orElse (fm_title frontmatter) (pd_title data);
          pageDescription = orElse (fm_description frontmatter) (pd_description data);
          pageKeywords = (if truthy (pd_keywords data) then pd_keywords data
                          else (case fm_Keywords frontmatter of
                                  Arr xs \<Rightarrow> Str (joinValues P '', '' xs)
                                | v \<Rightarrow> v));
          pageContent = (case pd_navigation data of
                           None \<Rightarrow> mainOpen @ pd_content data @ ''</main>''
                         | Some navigation \<Rightarrow>
                             if length navigation > 0
                             then Navigation_render P navigation @ nl @ mainOpen
                                  @ pd_content data @ ''</main>''
                             else mainOpen @ pd_content data @ ''</main>'')
      in Layout_render P pageTitle pageDescription pageKeywords pageContent cssFiles jsFiles
           siteLabels basePath)"


section \<open>The site builder\<close>

text \<open>
  The configuration object the builder is constructed with. The interface \<^verbatim>\<open>BuildConfig\<close>
  declares the first four keys. The object the build script and the tests of the builder
  construct also carries \<^verbatim>\<open>siteUrl\<close>; the builder reads it nowhere.
\<close>

record BuildConfig =
  contentDir :: string
  outputDir :: string
  cfg_navigation :: "NavItem list option"
  defaultTitle :: "string option"
  siteUrl :: "string option"

record ContentFile =
  cf_path :: string
  cf_relativePath :: string
  cf_name :: string

record ProcessedFile =
  pf_html :: string
  pf_data :: FrontmatterData
  pf_outputPath :: string

text \<open>
  What the build does to the file system, in order: \<^verbatim>\<open>mkdirSync(dir, { recursive: true })\<close>
  and \<^verbatim>\<open>writeFileSync(path, text, 'utf-8')\<close>. The output directory is taken to be writable.
  What the build reads is the text of the content files, which it never writes:
  \<^verbatim>\<open>readFileSync\<close> is a function from a path to its text, or to the error of the read.
\<close>

datatype fs_op = Mkdir string | WriteFile string string

type_synonym disk = "string \<Rightarrow> error + string"

fun writtenPaths :: "fs_op list \<Rightarrow> string list" where
  "writtenPaths [] = []"
| "writtenPaths (Mkdir d # ops) = writtenPaths ops"
| "writtenPaths (WriteFile path text # ops) = path # writtenPaths ops"

text \<open>\<^verbatim>\<open>SiteBuilder.processFile\<close>.\<close>

definition processFile :: "collaborators \<Rightarrow> string \<Rightarrow> string \<Rightarrow> error + ProcessedFile" where
  "processFile P content relativePath =
     (case compileWithFrontmatter P content of
        Inl e \<Rightarrow> Inl e
      | Inr (html, data) \<Rightarrow>
          Inr \<lparr>pf_html = html, pf_data = data, pf_outputPath = getOutputPath relativePath\<rparr>)"

text \<open>
  The two lines that open the \<^verbatim>\<open>try\<close> block of each of the four passes over the content
  files: read the file, parse its metadata.
\<close>

definition readPageMetadata :: "collaborators \<Rightarrow> disk \<Rightarrow> ContentFile \<Rightarrow> error + PageMetadata" where
  "readPageMetadata P readFileSync file =
     (case readFileSync (cf_path file) of
        Inl e \<Rightarrow> Inl e
      | Inr content \<Rightarrow> parsePageMetadata P content)"

text \<open>
  \<^verbatim>\<open>array.sort(compare)\<close> for a comparator that returns. The sort of the platform is
  stable; for a comparator that orders the elements consistently it returns what this
  insertion sort returns.
\<close>

fun insertSorted :: "('a \<Rightarrow> 'a \<Rightarrow> int) \<Rightarrow> 'a \<Rightarrow> 'a list \<Rightarrow> 'a list" where
  "insertSorted compare x [] = [x]"
| "insertSorted compare x (y # ys) =
     (if compare x y \<le> 0 then x # y # ys else y # insertSorted compare x ys)"

definition sortWith :: "('a \<Rightarrow> 'a \<Rightarrow> int) \<Rightarrow> 'a list \<Rightarrow> 'a list" where
  "sortWith compare xs = foldr (insertSorted compare) xs []"

text \<open>
  \<^verbatim>\<open>array.sort(compare)\<close> for a comparator that can throw; what it throws ends the sort.
  An array of fewer than two elements is returned as it is, with no comparison. Of a
  longer one the platform compares pairs of its own choice, one pair at least. So: a
  comparator that returns on every pair of elements gives the sorted array; one that
  throws the same exception on every pair gives that exception; for one that throws on
  some pairs and returns on others, whether the sort meets a throwing pair is the
  platform's to say.
\<close>

definition returnsOn :: "('a \<Rightarrow> 'a \<Rightarrow> error + int) \<Rightarrow> 'a list \<Rightarrow> bool" where
  "returnsOn compare xs =
     list_all (\<lambda>a. list_all (\<lambda>b. case compare a b of Inl e \<Rightarrow> False | Inr n \<Rightarrow> True) xs) xs"

definition throwsOn :: "('a \<Rightarrow> 'a \<Rightarrow> error + int) \<Rightarrow> 'a list \<Rightarrow> error \<Rightarrow> bool" where
  "throwsOn compare xs e = list_all (\<lambda>a. list_all (\<lambda>b. compare a b = Inl e) xs) xs"

definition returned :: "error + int \<Rightarrow> int" where
  "returned r = (case r of Inl e \<Rightarrow> 0 | Inr n \<Rightarrow> n)"

definition arraySort ::
  "collaborators \<Rightarrow> (NavItem \<Rightarrow> NavItem \<Rightarrow> error + int) \<Rightarrow> NavItem list \<Rightarrow> error + NavItem list" where
  "arraySort P compare xs =
     (if length xs < 2 then Inr xs
      else if returnsOn compare xs then Inr (sortWith (\<lambda>a b. returned (compare a b)) xs)
      else (case compare (hd xs) (hd xs) of
              Inl e \<Rightarrow> if throwsOn compare xs e then Inl e else sortAbrupt P compare xs
            | Inr n \<Rightarrow> sortAbrupt P compare xs))"

text \<open>
  The comparator of \<^verbatim>\<open>generateNavigation\<close>; \<^verbatim>\<open>order ?? 999\<close> for an absent order. On a tie
  it calls \<^verbatim>\<open>a.label.localeCompare(b.label)\<close>: a label that is a string compares itself with
  the other label as \<^verbatim>\<open>String\<close> prints it; a label of another kind has no such method, and
  the call throws.
\<close>

definition navCompare :: "collaborators \<Rightarrow> NavItem \<Rightarrow> NavItem \<Rightarrow> error + int" where
  "navCompare P a b =
     (let orderDiff = (case nav_order a of None \<Rightarrow> 999 | Some x \<Rightarrow> x)
                      - (case nav_order b of None \<Rightarrow> 999 | Some x \<Rightarrow> x)
      in if orderDiff \<noteq> 0 then Inr orderDiff
         else (case nav_label a of
                 Str s \<Rightarrow> Inr (localeCompare P s (toStr P (nav_label b)))
               | Undefined \<Rightarrow> Inl (TypeError ''Cannot read properties of undefined'')
               | Null \<Rightarrow> Inl (TypeError ''Cannot read properties of null'')
               | _ \<Rightarrow> Inl (TypeError ''a.label.localeCompare is not a function'')))"

text \<open>
  The body of the loop of \<^verbatim>\<open>generateNavigation\<close>: the items one file adds, none when the
  read or the parse throws. The parent of parsed metadata is a string, so the test
  \<^verbatim>\<open>metadata.parent === null\<close> never holds. The sort stands behind the loop, outside its
  \<^verbatim>\<open>try\<close> block: what the comparator throws, \<^verbatim>\<open>generateNavigation\<close> throws.
\<close>

definition navItemsOf :: "collaborators \<Rightarrow> string \<Rightarrow> disk \<Rightarrow> ContentFile \<Rightarrow> NavItem list" where
  "navItemsOf P basePath readFileSync file =
     (case readPageMetadata P readFileSync file of
        Inl e \<Rightarrow> []
      | Inr metadata \<Rightarrow>
          if pm_parent metadata = ''root''
          then [\<lparr>nav_label = orElse (pm_title metadata) (Str (replaceMdSuffix (cf_name file) [])),
                 nav_href = getUrlPath basePath (cf_relativePath file),
                 nav_active = None, nav_hxBoost = None,
                 nav_order = Some (pm_order metadata)\<rparr>]
          else [])"

definition generateNavigation ::
  "collaborators \<Rightarrow> string \<Rightarrow> disk \<Rightarrow> ContentFile list \<Rightarrow> error + NavItem list" where
  "generateNavigation P basePath readFileSync contentFiles =
     arraySort P (navCompare P) (concat (map (navItemsOf P basePath readFileSync) contentFiles))"

text \<open>
  A \<^verbatim>\<open>Map\<close> from strings to arrays, its keys in the order of their first insertion:
  \<^verbatim>\<open>if (!map.has(k)) map.set(k, []); map.get(k).push(v)\<close>.
\<close>

fun mapPush :: "(string \<times> 'v list) list \<Rightarrow> string \<Rightarrow> 'v \<Rightarrow> (string \<times> 'v list) list" where
  "mapPush [] k v = [(k, [v])]"
| "mapPush ((k', vs) # m) k v =
     (if k' = k then (k', vs @ [v]) # m else (k', vs) # mapPush m k v)"

definition childOf :: "collaborators \<Rightarrow> string \<Rightarrow> ContentFile \<Rightarrow> PageMetadata \<Rightarrow> ChildPageData" where
  "childOf P basePath file metadata =
     \<lparr>child_title = pm_title metadata,
      child_url = getUrlPath basePath (cf_relativePath file),
      child_description = pm_description metadata,
      child_date = pm_date metadata,
      child_category = pm_category metadata,
      child_labels = pm_labels metadata,
      child_author = pm_author metadata,
      child_type = pm_type metadata,
      child_shortUri = pm_shortUri metadata,
      child_order = pm_order metadata\<rparr>"

text \<open>\<^verbatim>\<open>collectChildrenMap\<close>, the loop as a left fold over the content files.\<close>

definition collectChildrenMap ::
  "collaborators \<Rightarrow> string \<Rightarrow> disk \<Rightarrow> ContentFile list \<Rightarrow> (string \<times> ChildPageData list) list" where
  "collectChildrenMap P basePath readFileSync contentFiles =
     foldl (\<lambda>childrenMap file.
              case readPageMetadata P readFileSync file of
                Inl e \<Rightarrow> childrenMap
              | Inr metadata \<Rightarrow>
                  mapPush childrenMap
                    (if pm_parent metadata \<noteq> [] then pm_parent metadata else ''root'')
                    (childOf P basePath file metadata))
       [] contentFiles"

text \<open>\<^verbatim>\<open>collectSiteLabels\<close>: a \<^verbatim>\<open>Set\<close> keeps each label once, at its first place.\<close>

definition setAdd :: "string list \<Rightarrow> string \<Rightarrow> string list" where
  "setAdd labelSet l = (if l \<in> set labelSet then labelSet else labelSet @ [l])"

definition collectSiteLabels :: "collaborators \<Rightarrow> disk \<Rightarrow> ContentFile list \<Rightarrow> string list" where
  "collectSiteLabels P readFileSync contentFiles =
     foldl (\<lambda>labelSet file.
              case readPageMetadata P readFileSync file of
                Inl e \<Rightarrow> labelSet
              | Inr metadata \<Rightarrow> foldl setAdd labelSet (pm_labels metadata))
       [] contentFiles"

text \<open>\<^verbatim>\<open>collectAllPageMetadata\<close>: the metadata of a file with its URL.\<close>

definition collectAllPageMetadata ::
  "collaborators \<Rightarrow> string \<Rightarrow> disk \<Rightarrow> ContentFile list \<Rightarrow> (PageMetadata \<times> string) list" where
  "collectAllPageMetadata P basePath readFileSync contentFiles =
     concat (map (\<lambda>file.
                    case readPageMetadata P readFileSync file of
                      Inl e \<Rightarrow> []
                    | Inr metadata \<Rightarrow> [(metadata, getUrlPath basePath (cf_relativePath file))])
              contentFiles)"

text \<open>
  \<^verbatim>\<open>generateLabelIndexPages\<close>. First the pages of each label, label by label of entry by
  entry; then, for every label with two entries or more, the directory and the file of
  its listing.
\<close>

definition groupByLabel :: "PageIndexEntry list \<Rightarrow> (string \<times> PageIndexEntry list) list" where
  "groupByLabel pageIndex =
     foldl (\<lambda>labelPages entry. foldl (\<lambda>m label. mapPush m label entry) labelPages (pie_labels entry))
       [] pageIndex"

definition labelIndexPageOf :: "PageIndexEntry \<Rightarrow> LabelIndexPage" where
  "labelIndexPageOf p =
     \<lparr>lip_url = pie_url p, lip_title = pie_title p, lip_description = pie_description p,
      lip_category = pie_category p, lip_date = pie_date p\<rparr>"

definition labelPageOps ::
  "collaborators \<Rightarrow> BuildConfig \<Rightarrow> string \<Rightarrow> NavItem list \<Rightarrow> string list
     \<Rightarrow> string \<times> PageIndexEntry list \<Rightarrow> fs_op list" where
  \<open>labelPageOps P config basePath navigation siteLabels entry =
     (case entry of (label, pages) \<Rightarrow>
        if length pages < 2 then []
        else
          (let slug = generateLabelSlug label;
               content = LabelIndex_render P label (map labelIndexPageOf pages);
               pageHtml = renderPage P
                 \<lparr>pd_title = Str (''Label: '' @ label), pd_content = content,
                  pd_path = ''label/'' @ slug,
                  pd_description = Str (''All pages tagged with "'' @ label @ ''"''),
                  pd_keywords = Undefined, pd_frontmatter = None,
                  pd_navigation = Some navigation, pd_cssFiles = None, pd_jsFiles = None,
                  pd_siteLabels = Some siteLabels, pd_basePath = Some basePath\<rparr>;
               outputPath = path_join P [outputDir config, ''label'', slug, ''index.html'']
           in [Mkdir (path_dirname P outputPath), WriteFile outputPath pageHtml]))\<close>

definition generateLabelIndexPages ::
  "collaborators \<Rightarrow> BuildConfig \<Rightarrow> string \<Rightarrow> PageIndexEntry list \<Rightarrow> NavItem list \<Rightarrow> string list
     \<Rightarrow> fs_op list" where
  "generateLabelIndexPages P config basePath pageIndex navigation siteLabels =
     concat (map (labelPageOps P config basePath navigation siteLabels) (groupByLabel pageIndex))"

text \<open>\<^verbatim>\<open>content.includes(part)\<close>.\<close>

definition stringIncludes :: "string \<Rightarrow> string \<Rightarrow> bool" where
  "stringIncludes s part = (splitAtFirst part s \<noteq> None)"

text \<open>
  The children directive of the render loop. Whatever is thrown inside its \<^verbatim>\<open>try\<close> block
  leaves the content as it was. A key that is no string is the key of no entry of the
  children map.
\<close>

definition resolveChildren ::
  "collaborators \<Rightarrow> (string \<times> ChildPageData list) list \<Rightarrow> string \<Rightarrow> string" where
  "resolveChildren P childrenMap content =
     (if stringIncludes content '':::children'' then
        (case parseFrontmatter P content of
           Inl e \<Rightarrow> content
         | Inr (data, body) \<Rightarrow>
             if truthy (fm_ShortURI data) then
               (let children = (case fm_ShortURI data of
                                  Str shortUri \<Rightarrow>
                                    (case map_of childrenMap shortUri of
                                       None \<Rightarrow> [] | Some cs \<Rightarrow> cs)
                                | _ \<Rightarrow> [])
                in case processChildrenDirectives P content children of
                     Inl e \<Rightarrow> content
                   | Inr resolved \<Rightarrow> resolved)
             else content)
      else content)"

text \<open>
  The body of the render loop of \<^verbatim>\<open>build\<close> for one content file: what it writes, or what
  it throws.
\<close>

definition renderFile ::
  "collaborators \<Rightarrow> BuildConfig \<Rightarrow> string \<Rightarrow> disk \<Rightarrow> NavItem list
     \<Rightarrow> (string \<times> ChildPageData list) list \<Rightarrow> string list \<Rightarrow> ContentFile \<Rightarrow> error + fs_op list" where
  "renderFile P config basePath readFileSync navigation childrenMap siteLabels file =
     (case readFileSync (cf_path file) of
        Inl e \<Rightarrow> Inl e
      | Inr content0 \<Rightarrow>
          (let content = resolveChildren P childrenMap content0
           in case processFile P content (cf_relativePath file) of
                Inl e \<Rightarrow> Inl e
              | Inr processed \<Rightarrow>
                  (let navWithActive =
                         map (\<lambda>item. item\<lparr>nav_active :=
                                Some (isActivePath basePath (nav_href item) (cf_relativePath file))\<rparr>)
                           navigation;
                       data = pf_data processed;
                       title = orElse (fm_title data)
                                 (orElse (case defaultTitle config of
                                            None \<Rightarrow> Undefined | Some t \<Rightarrow> Str t)
                                    (Str ''Untitled''));
                       description = orElse (fm_Description data)
                                       (orElse (fm_description data) Undefined);
                       keywords = (case fm_Keywords data of
                                     Arr xs \<Rightarrow> Str (joinValues P '', '' xs)
                                   | v \<Rightarrow>
                                       if truthy v then v
                                       else (case fm_keywords data of
                                               Arr ys \<Rightarrow> Str (joinValues P '', '' ys)
                                             | w \<Rightarrow> w));
                       pageHtml = renderPage P
                         \<lparr>pd_title = title, pd_content = pf_html processed,
                          pd_path = cf_relativePath file,
                          pd_description = description, pd_keywords = keywords,
                          pd_frontmatter = Some data, pd_navigation = Some navWithActive,
                          pd_cssFiles = None, pd_jsFiles = None,
                          pd_siteLabels = Some siteLabels, pd_basePath = Some basePath\<rparr>;
                       outputPath = path_join P [outputDir config, pf_outputPath processed]
                   in Inr [Mkdir (path_dirname P outputPath), WriteFile outputPath pageHtml])))"

text \<open>
  The render loop: the operations done, and the exception that ended the loop, if one
  did. The files written before it stay written.
\<close>

fun renderFiles ::
  "collaborators \<Rightarrow> BuildConfig \<Rightarrow> string \<Rightarrow> disk \<Rightarrow> NavItem list
     \<Rightarrow> (string \<times> ChildPageData list) list \<Rightarrow> string list \<Rightarrow> ContentFile list
     \<Rightarrow> fs_op list \<times> error option" where
  "renderFiles P config basePath readFileSync navigation childrenMap siteLabels [] = ([], None)"
| "renderFiles P config basePath readFileSync navigation childrenMap siteLabels (file # files) =
     (case renderFile P config basePath readFileSync navigation childrenMap siteLabels file of
        Inl e \<Rightarrow> ([], Some e)
      | Inr ops \<Rightarrow>
          (case renderFiles P config basePath readFileSync navigation childrenMap siteLabels files of
             (ops', r) \<Rightarrow> (ops @ ops', r)))"

text \<open>
  \<^verbatim>\<open>SiteBuilder.build\<close>, for the content files that \<^verbatim>\<open>scanContent\<close> found and the base path
  that \<^verbatim>\<open>process.env.BASE_PATH || ''\<close> gives. The result is what the build did to the file
  system and, when it was ended by an exception, that exception: one of the sort of the
  navigation, before any page is rendered; one of the render loop; or one of the
  generation of the page index.
\<close>

definition build ::
  "collaborators \<Rightarrow> BuildConfig \<Rightarrow> string \<Rightarrow> disk \<Rightarrow> ContentFile list \<Rightarrow> fs_op list \<times> error option" where
  "build P config basePath readFileSync contentFiles =
     (case generateNavigation P basePath readFileSync contentFiles of
        Inl e \<Rightarrow> ([Mkdir (outputDir config)], Some e)
      | Inr navigation \<Rightarrow>
     (let childrenMap = collectChildrenMap P basePath readFileSync contentFiles;
          siteLabels = collectSiteLabels P readFileSync contentFiles
      in case renderFiles P config basePath readFileSync navigation childrenMap siteLabels contentFiles of
           (ops, Some e) \<Rightarrow> (Mkdir (outputDir config) # ops, Some e)
         | (ops, None) \<Rightarrow>
             (let allPageMeta = collectAllPageMetadata P basePath readFileSync contentFiles
              in case generatePageIndex P allPageMeta of
                   Inl e \<Rightarrow> (Mkdir (outputDir config) # ops, Some e)
                 | Inr pageIndex \<Rightarrow>
                     (let fragmentsDir = path_join P [outputDir config, ''fragments'']
                      in (Mkdir (outputDir config) # ops
                          @ [Mkdir fragmentsDir,
                             WriteFile (path_join P [fragmentsDir, ''page-index.json''])
                               (JSON_stringify P pageIndex)]
                          @ generateLabelIndexPages P config basePath pageIndex navigation siteLabels,
                          None)))))"


section \<open>Sitemap and robots file\<close>

text \<open>
  The module of the two generators, whose header comment says of their results: both are
  written to the root of the output directory at build time. \<^verbatim>\<open>siteUrl.replace(/\/+$/, '')\<close>
  takes the slashes off the end.
\<close>

definition stripTrailingSlashes :: "string \<Rightarrow> string" where
  "stripTrailingSlashes url = rev (dropWhile (\<lambda>c. c = CHR ''/'') (rev url))"

definition generateRobotsTxt :: "string \<Rightarrow> string \<Rightarrow> string" where
  "generateRobotsTxt url basePath =
     (let cleanUrl = stripTrailingSlashes url
      in joinWith nl
           [''User-agent: *'', ''Allow: /'', [],
            ''Sitemap: '' @ cleanUrl @ basePath @ ''/sitemap.xml'', []])"

definition generateSitemap :: "PageIndexEntry list \<Rightarrow> string \<Rightarrow> string \<Rightarrow> string" where
  \<open>generateSitemap pages url basePath =
     (let cleanUrl = stripTrailingSlashes url;
          labelPrefix = basePath @ ''/label/'';
          urls = joinWith nl
            (map (\<lambda>page.
                    (let lastmod = (case pie_date page of
                                      None \<Rightarrow> []
                                    | Some d \<Rightarrow>
                                        if d \<noteq> []
                                        then nl @ ''    <lastmod>'' @ d @ ''</lastmod>'' else [])
                     in ''  <url>'' @ nl @ ''    <loc>'' @ cleanUrl @ pie_url page @ ''</loc>''
                        @ lastmod @ nl @ ''  </url>''))
               (filter (\<lambda>p. \<not> startsWith (pie_url p) labelPrefix) pages))
      in joinWith nl
           [''<?xml version="1.0" encoding="UTF-8"?>'',
            ''<urlset xmlns="http://www.sitemaps.org/schemas/sitemap/0.9">'',
            urls, ''</urlset>'', []])\<close>

section \<open>Notions of the properties\<close>


definition rootPages :: "collaborators \<Rightarrow> disk \<Rightarrow> ContentFile list \<Rightarrow> (ContentFile \<times> PageMetadata) list" where
  "rootPages P readFileSync contentFiles =
     concat (map (\<lambda>file. case readPageMetadata P readFileSync file of
                            Inl e \<Rightarrow> []
                          | Inr metadata \<Rightarrow> if pm_parent metadata = ''root'' then [(file, metadata)] else [])
              contentFiles)"


definition navItemFor :: "string \<Rightarrow> ContentFile \<times> PageMetadata \<Rightarrow> NavItem" where
  "navItemFor basePath page =
     \<lparr>nav_label = orElse (pm_title (snd page)) (Str (replaceMdSuffix (cf_name (fst page)) [])),
      nav_href = getUrlPath basePath (cf_relativePath (fst page)),
      nav_active = None, nav_hxBoost = None,
      nav_order = Some (pm_order (snd page))\<rparr>"

definition consistentCompare :: "collaborators \<Rightarrow> bool" where
  "consistentCompare P =
     ((\<forall>a b. localeCompare P a b \<le> 0 \<or> localeCompare P b a \<le> 0)
      \<and> (\<forall>a b c. localeCompare P a b \<le> 0 \<and> localeCompare P b c \<le> 0 \<longrightarrow> localeCompare P a c \<le> 0))"


text \<open>
  A content file whose metadata can be read and parsed; a content file that the render
  loop can read and compile; the navigation with the active state the render loop gives
  it for a file; and the paths of a page and of the page index in the output directory.
\<close>

definition metadataParses :: "collaborators \<Rightarrow> disk \<Rightarrow> ContentFile \<Rightarrow> bool" where
  "metadataParses P readFileSync file =
     (case readPageMetadata P readFileSync file of Inl e \<Rightarrow> False | Inr metadata \<Rightarrow> True)"

definition rendersFile ::
  "collaborators \<Rightarrow> (string \<times> ChildPageData list) list \<Rightarrow> disk \<Rightarrow> ContentFile \<Rightarrow> bool" where
  "rendersFile P childrenMap readFileSync file =
     (case readFileSync (cf_path file) of
        Inl e \<Rightarrow> False
      | Inr content \<Rightarrow>
          (case compileWithFrontmatter P (resolveChildren P childrenMap content) of
             Inl e \<Rightarrow> False
           | Inr compiled \<Rightarrow> True))"

definition activeNavigation :: "string \<Rightarrow> ContentFile \<Rightarrow> NavItem list \<Rightarrow> NavItem list" where
  "activeNavigation basePath file navigation =
     map (\<lambda>item. item\<lparr>nav_active := Some (isActivePath basePath (nav_href item) (cf_relativePath file))\<rparr>)
       navigation"

definition pageOutputPath :: "collaborators \<Rightarrow> BuildConfig \<Rightarrow> ContentFile \<Rightarrow> string" where
  "pageOutputPath P config file =
     path_join P [outputDir config, getOutputPath (cf_relativePath file)]"

definition pageIndexPath :: "collaborators \<Rightarrow> BuildConfig \<Rightarrow> string" where
  "pageIndexPath P config =
     path_join P [path_join P [outputDir config, ''fragments''], ''page-index.json'']"


text \<open>
  How often the label lists of a page index name a label, the path of the listing page of
  a label, and the number of values a map of arrays holds for a key.
\<close>

definition labelOccurrences :: "PageIndexEntry list \<Rightarrow> string \<Rightarrow> nat" where
  "labelOccurrences pageIndex label = count_list (concat (map pie_labels pageIndex)) label"

definition labelListingPath :: "collaborators \<Rightarrow> BuildConfig \<Rightarrow> string \<Rightarrow> string" where
  "labelListingPath P config label =
     path_join P [outputDir config, ''label'', generateLabelSlug label, ''index.html'']"

definition entryCount :: "(string \<times> 'v list) list \<Rightarrow> string \<Rightarrow> nat" where
  "entryCount m k = (case map_of m k of None \<Rightarrow> 0 | Some vs \<Rightarrow> length vs)"


section \<open>A sample site\<close>

text \<open>
  Stand-ins for the collaborators, and a small site, on which the functions above can be
  run. The header parser of the sample knows the documents of the sample by their text;
  the other stand-ins are the simplest functions of the right shape.
\<close>

definition homeDocument :: string where
  "homeDocument = ''---'' @ nl @ ''title: Home'' @ nl @ ''Short-URI: home'' @ nl
     @ ''Parent: root'' @ nl @ ''Order: 1'' @ nl @ ''Labels: [shared]'' @ nl
     @ ''---'' @ nl @ ''# Home''"

definition blogDocument :: string where
  "blogDocument = ''---'' @ nl @ ''title: Blog'' @ nl @ ''Short-URI: blog'' @ nl
     @ ''Parent: root'' @ nl @ ''Order: 2'' @ nl @ ''Labels: [shared, solo]'' @ nl
     @ ''---'' @ nl @ ''# Blog''"

definition draftDocument :: string where
  "draftDocument = ''---'' @ nl @ ''title: Draft'' @ nl @ ''Labels: [hidden]'' @ nl
     @ ''---'' @ nl @ ''# Draft''"

text \<open>Two documents whose titles the header parser reads as numbers.\<close>

definition notFoundDocument :: string where
  "notFoundDocument = ''---'' @ nl @ ''title: 404'' @ nl @ ''Short-URI: not-found'' @ nl
     @ ''---'' @ nl @ ''# Not found''"

definition yearDocument :: string where
  "yearDocument = ''---'' @ nl @ ''title: 2024'' @ nl @ ''Short-URI: year'' @ nl
     @ ''---'' @ nl @ ''# The year''"

definition sampleParseFrontmatter :: "string \<Rightarrow> error + FrontmatterData \<times> string" where
  "sampleParseFrontmatter content =
     (if content = homeDocument then
        Inr (emptyFrontmatter\<lparr>fm_title := Str ''Home'', fm_ShortURI := Str ''home'',
               fm_Parent := Str ''root'', fm_Order := Num 1, fm_Labels := Arr [Str ''shared'']\<rparr>,
             ''# Home'')
      else if content = blogDocument then
        Inr (emptyFrontmatter\<lparr>fm_title := Str ''Blog'', fm_ShortURI := Str ''blog'',
               fm_Parent := Str ''root'', fm_Order := Num 2,
               fm_Labels := Arr [Str ''shared'', Str ''solo'']\<rparr>,
             ''# Blog'')
      else if content = draftDocument then
        Inr (emptyFrontmatter\<lparr>fm_title := Str ''Draft'', fm_Labels := Arr [Str ''hidden'']\<rparr>,
             ''# Draft'')
      else if content = notFoundDocument then
        Inr (emptyFrontmatter\<lparr>fm_title := Num 404, fm_ShortURI := Str ''not-found''\<rparr>,
             ''# Not found'')
      else if content = yearDocument then
        Inr (emptyFrontmatter\<lparr>fm_title := Num 2024, fm_ShortURI := Str ''year''\<rparr>,
             ''# The year'')
      else Inl (Error ''unreadable header''))"

definition sampleCollaborators :: collaborators where
  \<open>sampleCollaborators =
     \<lparr>classNames = (\<lambda>cs. joinWith '' '' (filter (\<lambda>c. c \<noteq> []) cs)),
      LabelFooter_render =
        (\<lambda>ls. ''<footer>'' @ concat (map (\<lambda>l. ''<a data-label="'' @ l @ ''">'' @ l @ ''</a>'') ls)
              @ ''</footer>''),
      toLocaleDateString = (\<lambda>t. ''February 1, 2026''),
      toISOString = (\<lambda>t. ''2026-02-01T00:00:00.000Z''),
      Date_toString = (\<lambda>d. ''Sun Feb 01 2026''),
      Date_parse = (\<lambda>s. InvalidDate),
      Number_ofString = (\<lambda>s. None),
      Number_toExponential = (\<lambda>n. ''1e+21''),
      localeCompare = (\<lambda>a b. if a < b then -1 else if a = b then 0 else 1),
      sortAbrupt = (\<lambda>compare items. Inl (TypeError ''a.label.localeCompare is not a function'')),
      path_join = (\<lambda>parts. joinWith ''/'' parts),
      path_dirname = (\<lambda>path. rev (tl (dropWhile (\<lambda>c. c \<noteq> CHR ''/'') (rev path)))),
      JSON_stringify =
        (\<lambda>entries. ''['' @ joinWith '','' (map (\<lambda>e. ''{"url":"'' @ pie_url e @ ''"}'') entries) @ '']''),
      parseFrontmatter = sampleParseFrontmatter,
      compileWithFrontmatter =
        (\<lambda>content. case sampleParseFrontmatter content of
                      Inl e \<Rightarrow> Inl e
                    | Inr (data, body) \<Rightarrow> Inr (''<p>'' @ body @ ''</p>'', data)),
      processChildrenDirectives = (\<lambda>content children. Inr content),
      generatePageIndex =
        (\<lambda>pages. Inr (map (\<lambda>(m, url). \<lparr>pie_url = url,
                                        pie_title = (case pm_title m of Str t \<Rightarrow> t | _ \<Rightarrow> []),
                                        pie_description = [],
                                        pie_labels = pm_labels m, pie_category = [],
                                        pie_date = None\<rparr>) pages)),
      LabelIndex_render =
        (\<lambda>label pages. ''<h1>'' @ label @ ''</h1>''
                        @ concat (map (\<lambda>p. ''<a href="'' @ lip_url p @ ''">'' @ lip_title p @ ''</a>'') pages))\<rparr>\<close>

definition sampleContext :: TemplateContext where
  "sampleContext =
     \<lparr>ctx_title = ''Test Page'', ctx_content = ''<p>Hello world</p>'',
      ctx_description = ''A test page'', ctx_keywords = ''test, page'', ctx_basePath = [],
      ctx_navigation = [], ctx_siteLabels = [''htmx'', ''css''], ctx_frontmatter = [],
      ctx_cssFiles = [], ctx_jsFiles = [], ctx_author = [], ctx_date = None,
      ctx_category = [], ctx_labels = [], ctx_type = Page\<rparr>"

definition sampleConfig :: BuildConfig where
  "sampleConfig =
     \<lparr>contentDir = ''content'', outputDir = ''dist'', cfg_navigation = None,
      defaultTitle = Some ''My Static Site'', siteUrl = None\<rparr>"

definition homeFile :: ContentFile where
  "homeFile = \<lparr>cf_path = ''content/index.md'', cf_relativePath = ''index.md'', cf_name = ''index.md''\<rparr>"

definition blogFile :: ContentFile where
  "blogFile = \<lparr>cf_path = ''content/blog/index.md'', cf_relativePath = ''blog/index.md'',
                cf_name = ''index.md''\<rparr>"

definition draftFile :: ContentFile where
  "draftFile = \<lparr>cf_path = ''content/draft.md'', cf_relativePath = ''draft.md'', cf_name = ''draft.md''\<rparr>"

definition notFoundFile :: ContentFile where
  "notFoundFile = \<lparr>cf_path = ''content/404.md'', cf_relativePath = ''404.md'', cf_name = ''404.md''\<rparr>"

definition yearFile :: ContentFile where
  "yearFile = \<lparr>cf_path = ''content/2024.md'', cf_relativePath = ''2024.md'', cf_name = ''2024.md''\<rparr>"

definition sampleDisk :: disk where
  "sampleDisk path =
     (if path = ''content/index.md'' then Inr homeDocument
      else if path = ''content/blog/index.md'' then Inr blogDocument
      else if path = ''content/draft.md'' then Inr draftDocument
      else if path = ''content/404.md'' then Inr notFoundDocument
      else if path = ''content/2024.md'' then Inr yearDocument
      else Inl (Error ''ENOENT''))"


text \<open>A page index of one page that carries the label \<^verbatim>\<open>solo\<close>, listed twice.\<close>

definition soloEntry :: PageIndexEntry where
  "soloEntry = \<lparr>pie_url = ''/solo'', pie_title = ''Solo Page'', pie_description = [],
                 pie_labels = [''solo'', ''solo''], pie_category = [], pie_date = None\<rparr>"

definition properPrefixOf :: "string \<Rightarrow> string \<Rightarrow> bool" where
  "properPrefixOf a b = (startsWith b a \<and> a \<noteq> b)"


section \<open>Properties of the slug functions\<close>

lemma collapseRuns_in_run:
  "collapseRuns True s = collapseRuns False (dropWhile (\<lambda>x. \<not> isSlugChar x) s)"
  by (induction s) simp_all

lemma replaceNonSlugRuns_collapseRuns: "replaceNonSlugRuns s = collapseRuns False s"
  by (induction s rule: replaceNonSlugRuns.induct) (simp_all add: collapseRuns_in_run)

lemma rev_dropWhile_rev:
  "rev (dropWhile P (rev t)) = take (length t - length (takeWhile P (rev t))) t"
proof -
  have "t = rev (dropWhile P (rev t)) @ rev (takeWhile P (rev t))"
    by (metis rev_append rev_rev_ident takeWhile_dropWhile_id)
  moreover have "length (rev (dropWhile P (rev t))) = length t - length (takeWhile P (rev t))"
    by (metis length_rev length_append add_diff_cancel_left' takeWhile_dropWhile_id)
  ultimately show ?thesis
    by (metis append_eq_conv_conj)
qed

lemma stripEdgeHyphens_trimHyphens: "stripEdgeHyphens s = trimHyphens s"
  by (simp add: stripEdgeHyphens_def trimHyphens_def Let_def rev_dropWhile_rev)

text \<open>
  C4. For every text the slug function of the build (\<^verbatim>\<open>generateSlug\<close>) and the slug function
  of the browser (\<^verbatim>\<open>labelSlug\<close>) return the same string, and that string is what the
  contract describes: lowercase, trim, one hyphen for every run of characters outside
  \<^verbatim>\<open>[a-z0-9]\<close>, no hyphens at either end.
\<close>

theorem slug_functions_agree:
  "generateSlug text = labelSlug text \<and> labelSlug text = slugContract text"
  by (simp add: generateSlug_def labelSlug_def slugContract_def
      replaceNonSlugRuns_collapseRuns stripEdgeHyphens_trimHyphens)

lemma slug_example: "generateSlug ''  Hello, World!! Foo--bar  '' = ''hello-world-foo-bar''"
  by code_simp


section \<open>Properties of the output path\<close>

lemma extname_loop_settled:
  "startDot v \<noteq> -1 \<Longrightarrow> endPos v \<noteq> -1 \<Longrightarrow> preDotState v \<noteq> 0 \<Longrightarrow>
   startDot (extname_loop path i v) = startDot v \<and>
   endPos (extname_loop path i v) = endPos v \<and>
   preDotState (extname_loop path i v) \<noteq> 0"
  by (induction i arbitrary: v) (auto simp: Let_def)

lemma nth_stem_md:
  "(stem @ ''.md'') ! (length stem) = CHR ''.''"
  "(stem @ ''.md'') ! Suc (length stem) = CHR ''m''"
  "(stem @ ''.md'') ! Suc (Suc (length stem)) = CHR ''d''"
  by (simp_all add: nth_append)

text \<open>
  A path that ends in \<^verbatim>\<open>.md\<close> has the extension \<^verbatim>\<open>.md\<close> as soon as its file name is
  more than these three characters.
\<close>

lemma extname_md:
  assumes "stem \<noteq> []" and "last stem \<noteq> CHR ''/''"
  shows "extname (stem @ ''.md'') = ''.md''"
proof -
  obtain k where k: "length stem = Suc k"
    using assms(1) by (cases stem) auto
  let ?p = "stem @ ''.md''"
  let ?v0 = "\<lparr>startDot = -1, startPart = 0, endPos = -1, matchedSlash = True, preDotState = 0\<rparr>"
  let ?v3 = "\<lparr>startDot = int (Suc k), startPart = 0, endPos = int (Suc k) + 3,
              matchedSlash = False, preDotState = 0\<rparr>"
  let ?v4 = "?v3\<lparr>preDotState := (if last stem = CHR ''.'' then 1 else -1)\<rparr>"
  have len: "length ?p = Suc (Suc (Suc (Suc k)))"
    using k by simp
  have lastk: "?p ! k = last stem"
    using k assms(1) by (simp add: nth_append last_conv_nth)
  have three: "extname_loop ?p (length ?p) ?v0 = extname_loop ?p (Suc k) ?v3"
    using nth_stem_md[of stem] by (simp add: len k Let_def)
  have four: "extname_loop ?p (Suc k) ?v3 = extname_loop ?p k ?v4"
    using lastk assms(2) by (simp add: Let_def)
  have settled:
    "startDot (extname_loop ?p k ?v4) = int (Suc k) \<and>
     endPos (extname_loop ?p k ?v4) = int (Suc k) + 3 \<and>
     preDotState (extname_loop ?p k ?v4) \<noteq> 0"
    using extname_loop_settled[of ?v4 ?p k] by simp
  define w where "w = extname_loop ?p (length ?p) ?v0"
  have "w = extname_loop ?p k ?v4"
    unfolding w_def by (rule trans[OF three four])
  with settled have w: "startDot w = int (Suc k)" "endPos w = int (Suc k) + 3" "preDotState w \<noteq> 0"
    by simp_all
  have sl: "slice ?p (int (Suc k)) (int (Suc k) + 3) = ''.md''"
    using k by (simp add: slice_def slice_index_def Let_def)
  have "extname ?p =
     (if startDot w = -1 \<or> endPos w = -1 \<or> preDotState w = 0
         \<or> (preDotState w = 1 \<and> startDot w = endPos w - 1 \<and> startDot w = startPart w + 1)
      then [] else slice ?p (startDot w) (endPos w))"
    unfolding extname_def Let_def w_def ..
  then show ?thesis
    using w sl by simp
qed

text \<open>
  The mapping rule, for every path \<^verbatim>\<open>stem.md\<close> whose file name has a stem: the extension
  goes, backslashes become slashes, and an \<^verbatim>\<open>index\<close> stays a directory index.
\<close>

lemma getOutputPath_md:
  assumes "stem \<noteq> []" and "last stem \<noteq> CHR ''/''"
  shows "getOutputPath (stem @ ''.md'') =
     (let base = backslashesToSlashes stem
      in if base = ''index'' \<or> endsWith base ''/index'' then base @ ''.html''
         else base @ ''/index.html'')"
  by (simp add: getOutputPath_def extname_md[OF assms] slice_def slice_index_def Let_def)

lemma getOutputPath_examples:
  "getOutputPath ''about.md'' = ''about/index.html''"
  "getOutputPath ''blog/index.md'' = ''blog/index.html''"
  "getOutputPath ''blog/post.md'' = ''blog/post/index.html''"
  "getOutputPath ''blog/tutorials/index.md'' = ''blog/tutorials/index.html''"
  "getOutputPath ''index.md'' = ''index.html''"
  by code_simp+

text \<open>
  C1. The rule does not hold for every content file. The scan of the content directory
  takes every file whose name ends in \<^verbatim>\<open>.md\<close>, the file named \<^verbatim>\<open>.md\<close> among them. The
  platform gives that name no extension, \<^verbatim>\<open>slice(0, -0)\<close> is \<^verbatim>\<open>slice(0, 0)\<close>, and the whole
  path is lost: in the directory \<^verbatim>\<open>blog\<close> the file is mapped to \<^verbatim>\<open>/index.html\<close>, neither
  \<^verbatim>\<open>blog/.md/index.html\<close> (the path with its empty extension stripped) nor anything under
  \<^verbatim>\<open>blog\<close>, while its URL is \<^verbatim>\<open>/blog/\<close>.
\<close>

theorem getOutputPath_dot_md:
  "extname ''blog/.md'' = [] \<and> getOutputPath ''blog/.md'' = ''/index.html''
   \<and> getUrlPath [] ''blog/.md'' = ''/blog/''"
  by code_simp


section \<open>Properties of the active navigation item\<close>

text \<open>
  The pair the spec names is classified as it should be: neither page marks the other's
  navigation item.
\<close>

lemma isActivePath_about_about_us:
  "\<not> isActivePath [] ''/about'' ''about-us.md''"
  "\<not> isActivePath [] ''/about-us'' ''about.md''"
  "isActivePath [] ''/about'' ''about.md''"
  by code_simp+

text \<open>
  C10. There are two pages, the URL of one a proper prefix of the URL of the other, for
  which the navigation item of one is marked active on the other, although that page is
  neither the item's page nor below it: the home page \<^verbatim>\<open>index.md\<close> (URL \<^verbatim>\<open>/\<close>) and the
  index page of a directory named \<^verbatim>\<open>index\<close> (URL \<^verbatim>\<open>/index\<close>). The suffix check compares the
  href with the home page's file name \<^verbatim>\<open>/index.html\<close>.
\<close>

theorem isActivePath_misclassifies:
  "\<exists>itemFile pageFile.
     properPrefixOf (getUrlPath [] pageFile) (getUrlPath [] itemFile)
     \<and> isActivePath [] (getUrlPath [] itemFile) pageFile
     \<and> getUrlPath [] pageFile \<noteq> getUrlPath [] itemFile
     \<and> \<not> startsWith (getUrlPath [] pageFile) (getUrlPath [] itemFile @ ''/'')"
proof (intro exI)
  show "properPrefixOf (getUrlPath [] ''index.md'') (getUrlPath [] ''index/index.md'')
     \<and> isActivePath [] (getUrlPath [] ''index/index.md'') ''index.md''
     \<and> getUrlPath [] ''index.md'' \<noteq> getUrlPath [] ''index/index.md''
     \<and> \<not> startsWith (getUrlPath [] ''index.md'') (getUrlPath [] ''index/index.md'' @ ''/'')"
    by code_simp
qed


section \<open>Properties of the tag engine\<close>

lemma lazyTagName_exact:
  "name \<noteq> [] \<Longrightarrow> \<forall>c\<in>set name. \<not> isWhiteSpace c \<and> c \<noteq> CHR ''}'' \<Longrightarrow>
   lazyTagName (name @ ''}}'' @ x) = Some (name, x)"
proof (induction name)
  case Nil
  then show ?case by simp
next
  case (Cons c cs)
  show ?case
  proof (cases cs)
    case Nil
    with Cons.prems show ?thesis by (simp add: startsWith_def)
  next
    case (Cons d ds)
    with Cons.prems Cons.IH show ?thesis by (simp add: startsWith_def)
  qed
qed

lemma startsWith_overlap:
  assumes u: "u \<noteq> []" and n: "\<not> startsWith u m"
    and o: "\<forall>j. 0 < j \<and> j < length m \<longrightarrow> take (length m - j) m \<noteq> drop j m"
  shows "\<not> startsWith (u @ m @ r) m"
proof (cases "length m \<le> length u")
  case True
  then have "take (length m) (u @ m @ r) = take (length m) u" by simp
  moreover from n have "take (length m) u \<noteq> m" by (simp add: startsWith_def)
  ultimately show ?thesis unfolding startsWith_def by metis
next
  case False
  then have j: "0 < length u" "length u < length m" using u by simp_all
  show ?thesis
  proof
    assume "startsWith (u @ m @ r) m"
    then have "u @ take (length m - length u) m = m"
      using False by (simp add: startsWith_def)
    then have "drop (length u) (u @ take (length m - length u) m) = drop (length u) m"
      by simp
    then have "take (length m - length u) m = drop (length u) m"
      by simp
    with o j show False by blast
  qed
qed

lemma open_overlap:
  "\<forall>j. 0 < j \<and> j < length ''{{#if'' \<longrightarrow> take (length ''{{#if'' - j) ''{{#if'' \<noteq> drop j ''{{#if''"
proof (intro allI impI)
  fix j :: nat
  assume "0 < j \<and> j < length ''{{#if''"
  then have "j = 1 \<or> j = 2 \<or> j = 3 \<or> j = 4" by auto
  then show "take (length ''{{#if'' - j) ''{{#if'' \<noteq> drop j ''{{#if''"
    by (elim disjE) simp_all
qed

lemma close_overlap:
  "\<forall>j. 0 < j \<and> j < length ''{{/if}}'' \<longrightarrow> take (length ''{{/if}}'' - j) ''{{/if}}'' \<noteq> drop j ''{{/if}}''"
proof (intro allI impI)
  fix j :: nat
  assume "0 < j \<and> j < length ''{{/if}}''"
  then have "j = 1 \<or> j = 2 \<or> j = 3 \<or> j = 4 \<or> j = 5 \<or> j = 6" by auto
  then show "take (length ''{{/if}}'' - j) ''{{/if}}'' \<noteq> drop j ''{{/if}}''"
    by (elim disjE) simp_all
qed

lemma splitAtFirst_None:
  "splitAtFirst m (c # cs) = None \<Longrightarrow> \<not> startsWith (c # cs) m \<and> splitAtFirst m cs = None"
  by (auto split: if_splits option.splits)

lemma splitAtFirst_marker:
  assumes o: "\<forall>j. 0 < j \<and> j < length m \<longrightarrow> take (length m - j) m \<noteq> drop j m"
  shows "splitAtFirst m b = None \<Longrightarrow> splitAtFirst m (b @ m @ r) = Some (b, r)"
proof (induction b)
  case Nil
  then have "m \<noteq> []" by (auto split: if_splits)
  then obtain c cs where m: "m = c # cs" by (cases m) auto
  have "startsWith (m @ r) m" by (simp add: startsWith_def)
  then show ?case unfolding m by simp
next
  case (Cons c cs)
  from splitAtFirst_None[OF Cons.prems]
  have n: "\<not> startsWith (c # cs) m" and s: "splitAtFirst m cs = None" by simp_all
  have "\<not> startsWith ((c # cs) @ m @ r) m"
    by (rule startsWith_overlap[OF _ n o]) simp
  with Cons.IH[OF s] show ?case by simp
qed

lemma matchConditional_none: "\<not> startsWith s ''{{#if'' \<Longrightarrow> matchConditional s = None"
  by (simp add: matchConditional_def)

lemma resolveConditionals_plain:
  "splitAtFirst ''{{#if'' t = None \<Longrightarrow> resolveConditionals P ctx t = Inr t"
proof (induction t)
  case Nil
  then show ?case by simp
next
  case (Cons c cs)
  from splitAtFirst_None[OF Cons.prems]
  have n: "\<not> startsWith (c # cs) ''{{#if''" and s: "splitAtFirst ''{{#if'' cs = None" by simp_all
  from matchConditional_none[OF n] Cons.IH[OF s] show ?case by simp
qed

lemma resolveConditionals_prefix:
  "splitAtFirst ''{{#if'' pre = None \<Longrightarrow>
   resolveConditionals P ctx (pre @ ''{{#if'' @ x) =
     (case resolveConditionals P ctx (''{{#if'' @ x) of
        Inl e \<Rightarrow> Inl e
      | Inr out \<Rightarrow> Inr (pre @ out))"
proof (induction pre)
  case Nil
  then show ?case by (simp split: sum.splits)
next
  case (Cons c cs)
  from splitAtFirst_None[OF Cons.prems]
  have n: "\<not> startsWith (c # cs) ''{{#if''" and s: "splitAtFirst ''{{#if'' cs = None" by simp_all
  have "\<not> startsWith ((c # cs) @ ''{{#if'' @ x) ''{{#if''"
    by (rule startsWith_overlap[OF _ n open_overlap]) simp
  then have m: "matchConditional (c # (cs @ ''{{#if'' @ x)) = None"
    using matchConditional_none by simp
  have "resolveConditionals P ctx (c # (cs @ ''{{#if'' @ x)) =
     (case resolveConditionals P ctx (cs @ ''{{#if'' @ x) of
        Inl e \<Rightarrow> Inl e
      | Inr out \<Rightarrow> Inr (c # out))"
    unfolding resolveConditionals.simps(2)[of P ctx c "cs @ ''{{#if'' @ x"] m by simp
  with Cons.IH[OF s] show ?case
    by (simp del: resolveConditionals.simps split: sum.splits)
qed

lemma matchConditional_block:
  assumes "name \<noteq> []" and "\<forall>c\<in>set name. \<not> isWhiteSpace c \<and> c \<noteq> CHR ''}''"
    and "splitAtFirst ''{{/if}}'' block = None"
  shows "matchConditional (''{{#if '' @ name @ ''}}'' @ block @ ''{{/if}}'' @ rest)
         = Some (name, block, rest)"
proof -
  obtain n ns where n: "name = n # ns" using assms(1) by (cases name) auto
  have ws: "isWhiteSpace CHR '' ''" by (simp add: isWhiteSpace_def)
  have nws: "\<not> isWhiteSpace n" using assms(2) n by simp
  have d: "dropWhile isWhiteSpace (drop 5 (''{{#if '' @ name @ ''}}'' @ block @ ''{{/if}}'' @ rest))
           = name @ ''}}'' @ block @ ''{{/if}}'' @ rest"
    using ws nws n by simp
  have t: "takeWhile isWhiteSpace (drop 5 (''{{#if '' @ name @ ''}}'' @ block @ ''{{/if}}'' @ rest)) \<noteq> []"
    using ws by simp
  have s: "startsWith (''{{#if '' @ name @ ''}}'' @ block @ ''{{/if}}'' @ rest) ''{{#if''"
    by (simp add: startsWith_def)
  have b: "splitAtFirst ''{{/if}}'' (block @ ''{{/if}}'' @ rest) = Some (block, rest)"
    by (rule splitAtFirst_marker[OF close_overlap assms(3)])
  show ?thesis
    unfolding matchConditional_def
    using s t d lazyTagName_exact[OF assms(1,2), of "block @ ''{{/if}}'' @ rest"] b
    by (simp del: append.simps takeWhile.simps dropWhile.simps)
qed

lemma resolveConditionals_block:
  assumes "splitAtFirst ''{{#if'' pre = None"
    and "name \<noteq> []" and "\<forall>c\<in>set name. \<not> isWhiteSpace c \<and> c \<noteq> CHR ''}''"
    and "splitAtFirst ''{{/if}}'' block = None"
  shows "resolveConditionals P ctx (pre @ ''{{#if '' @ name @ ''}}'' @ block @ ''{{/if}}'' @ rest) =
     (case resolveTag P name ctx of
        Inl e \<Rightarrow> Inl e
      | Inr v \<Rightarrow>
          (case resolveConditionals P ctx rest of
             Inl e \<Rightarrow> Inl e
           | Inr out \<Rightarrow> Inr (pre @ (if v \<noteq> [] then block else []) @ out)))"
proof -
  define t where "t = ''{{#if '' @ name @ ''}}'' @ block @ ''{{/if}}'' @ rest"
  obtain c cs where cs: "t = c # cs" unfolding t_def by simp
  have x: "t = ''{{#if'' @ ('' '' @ name @ ''}}'' @ block @ ''{{/if}}'' @ rest)"
    unfolding t_def by simp
  have "matchConditional t = Some (name, block, rest)"
    unfolding t_def by (rule matchConditional_block[OF assms(2,3,4)])
  then have m: "matchConditional (c # cs) = Some (name, block, rest)"
    unfolding cs .
  have "resolveConditionals P ctx (c # cs) =
     (case resolveTag P name ctx of
        Inl e \<Rightarrow> Inl e
      | Inr v \<Rightarrow>
          (case resolveConditionals P ctx rest of
             Inl e \<Rightarrow> Inl e
           | Inr out \<Rightarrow> Inr ((if v \<noteq> [] then block else []) @ out)))"
    unfolding resolveConditionals.simps(2)[of P ctx c cs] m
    by (simp add: isTagTruthy_def split: sum.splits)
  then have r: "resolveConditionals P ctx t =
     (case resolveTag P name ctx of
        Inl e \<Rightarrow> Inl e
      | Inr v \<Rightarrow>
          (case resolveConditionals P ctx rest of
             Inl e \<Rightarrow> Inl e
           | Inr out \<Rightarrow> Inr ((if v \<noteq> [] then block else []) @ out)))"
    unfolding cs .
  have "resolveConditionals P ctx (pre @ t) =
     (case resolveConditionals P ctx t of
        Inl e \<Rightarrow> Inl e
      | Inr out \<Rightarrow> Inr (pre @ out))"
    unfolding x by (rule resolveConditionals_prefix[OF assms(1)])
  then have "resolveConditionals P ctx (pre @ t) =
     (case resolveTag P name ctx of
        Inl e \<Rightarrow> Inl e
      | Inr v \<Rightarrow>
          (case resolveConditionals P ctx rest of
             Inl e \<Rightarrow> Inl e
           | Inr out \<Rightarrow> Inr (pre @ (if v \<noteq> [] then block else []) @ out)))"
    unfolding r by (simp split: sum.splits)
  then show ?thesis unfolding t_def .
qed

lemma replacePlaceholders_X: "replacePlaceholders P ctx ''X'' = Inr ''X''"
  by (simp add: matchPlaceholder_def startsWith_def)

text \<open>
  C5. \<^verbatim>\<open>processTemplate\<close> resolves the conditional blocks first and the placeholders of
  what that leaves second; what step 2 puts in is not read again by step 1. Step 1 leaves
  a text without \<^verbatim>\<open>{{#if\<close> as it is. A block \<^verbatim>\<open>{{#if name}}block{{/if}}\<close> at any place of a
  template, behind a text without \<^verbatim>\<open>{{#if\<close> and before any text, its block holding no
  \<^verbatim>\<open>{{/if}}\<close>, becomes the block when \<^verbatim>\<open>resolveTag\<close> gives the name a non-empty string and
  the empty string when it gives the empty one; the text before it stays, and the text
  behind it is resolved in the same way, block by block; an exception of \<^verbatim>\<open>resolveTag\<close>
  passes through. The label footer component is not among the sources: given that it
  renders a non-empty label list as a non-empty string, a block \<^verbatim>\<open>{{#if label-footer}}\<close> is
  kept when the site has labels and dropped when it has none, in every render context.
\<close>

theorem conditionals_before_placeholders:
  "processTemplate P t ctx =
     (case resolveConditionals P ctx t of
        Inl e \<Rightarrow> Inl e
      | Inr result \<Rightarrow> replacePlaceholders P ctx result)
   \<and> (splitAtFirst ''{{#if'' t = None
        \<longrightarrow> resolveConditionals P ctx t = Inr t
            \<and> processTemplate P t ctx = replacePlaceholders P ctx t)
   \<and> (splitAtFirst ''{{#if'' pre = None
        \<and> name \<noteq> [] \<and> (\<forall>c\<in>set name. \<not> isWhiteSpace c \<and> c \<noteq> CHR ''}'')
        \<and> splitAtFirst ''{{/if}}'' block = None
      \<longrightarrow> resolveConditionals P ctx (pre @ ''{{#if '' @ name @ ''}}'' @ block @ ''{{/if}}'' @ rest) =
            (case resolveTag P name ctx of
               Inl e \<Rightarrow> Inl e
             | Inr v \<Rightarrow>
                 (case resolveConditionals P ctx rest of
                    Inl e \<Rightarrow> Inl e
                  | Inr out \<Rightarrow> Inr (pre @ (if v \<noteq> [] then block else []) @ out))))
   \<and> ((\<forall>ls. ls \<noteq> [] \<longrightarrow> LabelFooter_render P ls \<noteq> [])
        \<and> splitAtFirst ''{{#if'' pre = None \<and> splitAtFirst ''{{/if}}'' block = None
      \<longrightarrow> resolveConditionals P ctx (pre @ ''{{#if label-footer}}'' @ block @ ''{{/if}}'' @ rest) =
            (case resolveConditionals P ctx rest of
               Inl e \<Rightarrow> Inl e
             | Inr out \<Rightarrow> Inr (pre @ (if ctx_siteLabels ctx \<noteq> [] then block else []) @ out)))"
proof (intro conjI impI)
  show "processTemplate P t ctx =
     (case resolveConditionals P ctx t of
        Inl e \<Rightarrow> Inl e
      | Inr result \<Rightarrow> replacePlaceholders P ctx result)"
    by (simp add: processTemplate_def)
next
  assume "splitAtFirst ''{{#if'' t = None"
  then show "resolveConditionals P ctx t = Inr t"
    by (rule resolveConditionals_plain)
next
  assume "splitAtFirst ''{{#if'' t = None"
  then have "resolveConditionals P ctx t = Inr t"
    by (rule resolveConditionals_plain)
  then show "processTemplate P t ctx = replacePlaceholders P ctx t"
    by (simp add: processTemplate_def)
next
  assume a: "splitAtFirst ''{{#if'' pre = None
        \<and> name \<noteq> [] \<and> (\<forall>c\<in>set name. \<not> isWhiteSpace c \<and> c \<noteq> CHR ''}'')
        \<and> splitAtFirst ''{{/if}}'' block = None"
  show "resolveConditionals P ctx (pre @ ''{{#if '' @ name @ ''}}'' @ block @ ''{{/if}}'' @ rest) =
            (case resolveTag P name ctx of
               Inl e \<Rightarrow> Inl e
             | Inr v \<Rightarrow>
                 (case resolveConditionals P ctx rest of
                    Inl e \<Rightarrow> Inl e
                  | Inr out \<Rightarrow> Inr (pre @ (if v \<noteq> [] then block else []) @ out)))"
    by (rule resolveConditionals_block) (use a in blast)+
next
  assume a: "(\<forall>ls. ls \<noteq> [] \<longrightarrow> LabelFooter_render P ls \<noteq> [])
        \<and> splitAtFirst ''{{#if'' pre = None \<and> splitAtFirst ''{{/if}}'' block = None"
  then have footer: "\<forall>ls. ls \<noteq> [] \<longrightarrow> LabelFooter_render P ls \<noteq> []"
    and p: "splitAtFirst ''{{#if'' pre = None" and b: "splitAtFirst ''{{/if}}'' block = None"
    by blast+
  have r: "resolveTag P ''label-footer'' ctx =
           Inr (if ctx_siteLabels ctx \<noteq> [] then LabelFooter_render P (ctx_siteLabels ctx) else [])"
    by (simp add: resolveTag_def)
  have n1: "''label-footer'' \<noteq> []" by simp
  have n2: "\<forall>c\<in>set ''label-footer''. \<not> isWhiteSpace c \<and> c \<noteq> CHR ''}''"
    by (simp add: isWhiteSpace_def)
  have lit: "pre @ ''{{#if '' @ ''label-footer'' @ ''}}'' @ block @ ''{{/if}}'' @ rest
             = pre @ ''{{#if label-footer}}'' @ block @ ''{{/if}}'' @ rest"
    by simp
  have v: "(if ctx_siteLabels ctx \<noteq> [] then LabelFooter_render P (ctx_siteLabels ctx) else []) \<noteq> []
           \<longleftrightarrow> ctx_siteLabels ctx \<noteq> []"
    using footer by simp
  have "resolveConditionals P ctx
          (pre @ ''{{#if '' @ ''label-footer'' @ ''}}'' @ block @ ''{{/if}}'' @ rest) =
     (case resolveTag P ''label-footer'' ctx of
        Inl e \<Rightarrow> Inl e
      | Inr v \<Rightarrow>
          (case resolveConditionals P ctx rest of
             Inl e \<Rightarrow> Inl e
           | Inr out \<Rightarrow> Inr (pre @ (if v \<noteq> [] then block else []) @ out)))"
    by (rule resolveConditionals_block[OF p n1 n2 b])
  then show "resolveConditionals P ctx (pre @ ''{{#if label-footer}}'' @ block @ ''{{/if}}'' @ rest) =
            (case resolveConditionals P ctx rest of
               Inl e \<Rightarrow> Inl e
             | Inr out \<Rightarrow> Inr (pre @ (if ctx_siteLabels ctx \<noteq> [] then block else []) @ out))"
    unfolding lit r sum.case v .
qed

theorem conditionals_before_placeholders_witness:
  "processTemplate sampleCollaborators ''BEFORE{{#if navigation}}<nav>NAV</nav>{{/if}}AFTER''
        sampleContext = Inr ''BEFOREAFTER''
   \<and> processTemplate sampleCollaborators ''<a>{{#if title}}<h1>{{title}}</h1>{{/if}}<b>'' sampleContext
        = Inr ''<a><h1>Test Page</h1><b>''
   \<and> processTemplate sampleCollaborators ''<a>{{#if label-footer}}X{{/if}}<b>'' sampleContext
        = Inr ''<a>X<b>''
   \<and> processTemplate sampleCollaborators ''<a>{{#if label-footer}}X{{/if}}<b>''
        (sampleContext\<lparr>ctx_siteLabels := []\<rparr>) = Inr ''<a><b>''
   \<and> processTemplate sampleCollaborators ''<div>{{content}}</div>''
        (sampleContext\<lparr>ctx_content := ''{{#if title}}T{{/if}}''\<rparr>)
        = Inr ''<div>{{#if title}}T{{/if}}</div>''"
proof -
  let ?P = sampleCollaborators
  let ?e = "sampleContext\<lparr>ctx_siteLabels := []\<rparr>"
  let ?c = "sampleContext\<lparr>ctx_content := ''{{#if title}}T{{/if}}''\<rparr>"
  have footer: "\<forall>ls. ls \<noteq> [] \<longrightarrow> LabelFooter_render ?P ls \<noteq> []"
    by (simp add: sampleCollaborators_def)
  have l1: "ctx_siteLabels sampleContext \<noteq> []" and l2: "ctx_siteLabels ?e = []"
    by (simp_all add: sampleContext_def)
  have after: "\<And>ctx. resolveConditionals ?P ctx ''AFTER'' = Inr ''AFTER''"
    and b: "\<And>ctx. resolveConditionals ?P ctx ''<b>'' = Inr ''<b>''"
    by (simp_all add: matchConditional_def startsWith_def)
  have h1: "splitAtFirst ''{{#if'' ''BEFORE'' = None
        \<and> ''navigation'' \<noteq> [] \<and> (\<forall>c\<in>set ''navigation''. \<not> isWhiteSpace c \<and> c \<noteq> CHR ''}'')
        \<and> splitAtFirst ''{{/if}}'' ''<nav>NAV</nav>'' = None"
    by code_simp
  have lit1: "''BEFORE'' @ ''{{#if '' @ ''navigation'' @ ''}}'' @ ''<nav>NAV</nav>'' @ ''{{/if}}'' @ ''AFTER''
              = ''BEFORE{{#if navigation}}<nav>NAV</nav>{{/if}}AFTER''"
    by simp
  have rt1: "resolveTag ?P ''navigation'' sampleContext = Inr []"
    by code_simp
  have rp1: "replacePlaceholders ?P sampleContext ''BEFOREAFTER'' = Inr ''BEFOREAFTER''"
    by code_simp
  note t1 = conditionals_before_placeholders[of ?P
      "''BEFORE{{#if navigation}}<nav>NAV</nav>{{/if}}AFTER''" sampleContext
      "''BEFORE''" "''navigation''" "''<nav>NAV</nav>''" "''AFTER''"]
  from t1 h1 have "resolveConditionals ?P sampleContext
      (''BEFORE'' @ ''{{#if '' @ ''navigation'' @ ''}}'' @ ''<nav>NAV</nav>'' @ ''{{/if}}'' @ ''AFTER'') =
            (case resolveTag ?P ''navigation'' sampleContext of
               Inl e \<Rightarrow> Inl e
             | Inr v \<Rightarrow>
                 (case resolveConditionals ?P sampleContext ''AFTER'' of
                    Inl e \<Rightarrow> Inl e
                  | Inr out \<Rightarrow> Inr (''BEFORE'' @ (if v \<noteq> [] then ''<nav>NAV</nav>'' else []) @ out)))"
    by blast
  then have s1: "resolveConditionals ?P sampleContext
      ''BEFORE{{#if navigation}}<nav>NAV</nav>{{/if}}AFTER'' = Inr ''BEFOREAFTER''"
    unfolding lit1 rt1 after by simp
  from t1 have "processTemplate ?P ''BEFORE{{#if navigation}}<nav>NAV</nav>{{/if}}AFTER'' sampleContext =
     (case resolveConditionals ?P sampleContext ''BEFORE{{#if navigation}}<nav>NAV</nav>{{/if}}AFTER'' of
        Inl e \<Rightarrow> Inl e
      | Inr result \<Rightarrow> replacePlaceholders ?P sampleContext result)"
    by blast
  then have c1: "processTemplate ?P ''BEFORE{{#if navigation}}<nav>NAV</nav>{{/if}}AFTER''
        sampleContext = Inr ''BEFOREAFTER''"
    unfolding s1 sum.case rp1 .
  have h2: "splitAtFirst ''{{#if'' ''<a>'' = None
        \<and> ''title'' \<noteq> [] \<and> (\<forall>c\<in>set ''title''. \<not> isWhiteSpace c \<and> c \<noteq> CHR ''}'')
        \<and> splitAtFirst ''{{/if}}'' ''<h1>{{title}}</h1>'' = None"
    by code_simp
  have lit2: "''<a>'' @ ''{{#if '' @ ''title'' @ ''}}'' @ ''<h1>{{title}}</h1>'' @ ''{{/if}}'' @ ''<b>''
              = ''<a>{{#if title}}<h1>{{title}}</h1>{{/if}}<b>''"
    by simp
  have rt2: "resolveTag ?P ''title'' sampleContext = Inr ''Test Page''"
    by code_simp
  have rp2: "replacePlaceholders ?P sampleContext ''<a><h1>{{title}}</h1><b>''
             = Inr ''<a><h1>Test Page</h1><b>''"
    by code_simp
  note t2 = conditionals_before_placeholders[of ?P
      "''<a>{{#if title}}<h1>{{title}}</h1>{{/if}}<b>''" sampleContext
      "''<a>''" "''title''" "''<h1>{{title}}</h1>''" "''<b>''"]
  from t2 h2 have "resolveConditionals ?P sampleContext
      (''<a>'' @ ''{{#if '' @ ''title'' @ ''}}'' @ ''<h1>{{title}}</h1>'' @ ''{{/if}}'' @ ''<b>'') =
            (case resolveTag ?P ''title'' sampleContext of
               Inl e \<Rightarrow> Inl e
             | Inr v \<Rightarrow>
                 (case resolveConditionals ?P sampleContext ''<b>'' of
                    Inl e \<Rightarrow> Inl e
                  | Inr out \<Rightarrow> Inr (''<a>'' @ (if v \<noteq> [] then ''<h1>{{title}}</h1>'' else []) @ out)))"
    by blast
  then have s2: "resolveConditionals ?P sampleContext
      ''<a>{{#if title}}<h1>{{title}}</h1>{{/if}}<b>'' = Inr ''<a><h1>{{title}}</h1><b>''"
    unfolding lit2 rt2 b by simp
  from t2 have "processTemplate ?P ''<a>{{#if title}}<h1>{{title}}</h1>{{/if}}<b>'' sampleContext =
     (case resolveConditionals ?P sampleContext ''<a>{{#if title}}<h1>{{title}}</h1>{{/if}}<b>'' of
        Inl e \<Rightarrow> Inl e
      | Inr result \<Rightarrow> replacePlaceholders ?P sampleContext result)"
    by blast
  then have c2: "processTemplate ?P ''<a>{{#if title}}<h1>{{title}}</h1>{{/if}}<b>'' sampleContext
        = Inr ''<a><h1>Test Page</h1><b>''"
    unfolding s2 sum.case rp2 .
  have h3: "splitAtFirst ''{{#if'' ''<a>'' = None \<and> splitAtFirst ''{{/if}}'' ''X'' = None"
    by code_simp
  have lit3: "''<a>'' @ ''{{#if label-footer}}'' @ ''X'' @ ''{{/if}}'' @ ''<b>''
              = ''<a>{{#if label-footer}}X{{/if}}<b>''"
    by simp
  have rp3: "\<And>ctx. replacePlaceholders ?P ctx ''<a>X<b>'' = Inr ''<a>X<b>''"
    "\<And>ctx. replacePlaceholders ?P ctx ''<a><b>'' = Inr ''<a><b>''"
    by (simp_all add: matchPlaceholder_def startsWith_def)
  note t3 = conditionals_before_placeholders[of ?P "''<a>{{#if label-footer}}X{{/if}}<b>''"
      sampleContext "''<a>''" _ "''X''" "''<b>''"]
  note t4 = conditionals_before_placeholders[of ?P "''<a>{{#if label-footer}}X{{/if}}<b>''"
      ?e "''<a>''" _ "''X''" "''<b>''"]
  from t3 footer h3 have "resolveConditionals ?P sampleContext
      (''<a>'' @ ''{{#if label-footer}}'' @ ''X'' @ ''{{/if}}'' @ ''<b>'') =
            (case resolveConditionals ?P sampleContext ''<b>'' of
               Inl e \<Rightarrow> Inl e
             | Inr out \<Rightarrow> Inr (''<a>'' @ (if ctx_siteLabels sampleContext \<noteq> [] then ''X'' else []) @ out))"
    by blast
  then have s3: "resolveConditionals ?P sampleContext ''<a>{{#if label-footer}}X{{/if}}<b>''
                 = Inr ''<a>X<b>''"
    unfolding lit3 b using l1 by simp
  from t3 have "processTemplate ?P ''<a>{{#if label-footer}}X{{/if}}<b>'' sampleContext =
     (case resolveConditionals ?P sampleContext ''<a>{{#if label-footer}}X{{/if}}<b>'' of
        Inl e \<Rightarrow> Inl e
      | Inr result \<Rightarrow> replacePlaceholders ?P sampleContext result)"
    by blast
  then have c3: "processTemplate ?P ''<a>{{#if label-footer}}X{{/if}}<b>'' sampleContext
                 = Inr ''<a>X<b>''"
    unfolding s3 sum.case rp3 .
  from t4 footer h3 have "resolveConditionals ?P ?e
      (''<a>'' @ ''{{#if label-footer}}'' @ ''X'' @ ''{{/if}}'' @ ''<b>'') =
            (case resolveConditionals ?P ?e ''<b>'' of
               Inl e \<Rightarrow> Inl e
             | Inr out \<Rightarrow> Inr (''<a>'' @ (if ctx_siteLabels ?e \<noteq> [] then ''X'' else []) @ out))"
    by blast
  then have s4: "resolveConditionals ?P ?e ''<a>{{#if label-footer}}X{{/if}}<b>'' = Inr ''<a><b>''"
    unfolding lit3 b l2 by simp
  from t4 have "processTemplate ?P ''<a>{{#if label-footer}}X{{/if}}<b>'' ?e =
     (case resolveConditionals ?P ?e ''<a>{{#if label-footer}}X{{/if}}<b>'' of
        Inl e \<Rightarrow> Inl e
      | Inr result \<Rightarrow> replacePlaceholders ?P ?e result)"
    by blast
  then have c4: "processTemplate ?P ''<a>{{#if label-footer}}X{{/if}}<b>'' ?e = Inr ''<a><b>''"
    unfolding s4 sum.case rp3 .
  have h5: "splitAtFirst ''{{#if'' ''<div>{{content}}</div>'' = None"
    by code_simp
  have rp5: "replacePlaceholders ?P ?c ''<div>{{content}}</div>'' = Inr ''<div>{{#if title}}T{{/if}}</div>''"
    by code_simp
  from conditionals_before_placeholders[of ?P "''<div>{{content}}</div>''" ?c] h5
  have "processTemplate ?P ''<div>{{content}}</div>'' ?c
        = replacePlaceholders ?P ?c ''<div>{{content}}</div>''"
    by blast
  then have c5: "processTemplate ?P ''<div>{{content}}</div>'' ?c = Inr ''<div>{{#if title}}T{{/if}}</div>''"
    unfolding rp5 .
  from c1 c2 c3 c4 c5 show ?thesis by blast
qed

lemma resolveTag_default:
  "tagName \<notin> set builtinTags \<Longrightarrow> resolveTag P tagName ctx = Inr (''{{'' @ tagName @ ''}}'')"
  by (simp add: resolveTag_def builtinTags_def)

lemma lazyTagName_shape:
  "lazyTagName s = Some (name, rest) \<Longrightarrow> s = name @ ''}}'' @ rest"
proof (induction s arbitrary: name rest)
  case Nil
  then show ?case by simp
next
  case (Cons c cs)
  show ?case
  proof (cases "startsWith cs ''}}''")
    case True
    then have "cs = ''}}'' @ drop 2 cs"
      by (metis append_take_drop_id startsWith_def length_Cons list.size(3) numeral_2_eq_2)
    with Cons.prems True show ?thesis
      by (auto split: if_splits)
  next
    case False
    with Cons.prems obtain n where "lazyTagName cs = Some (n, rest)" "name = c # n"
      by (auto split: if_splits option.splits)
    with Cons.IH show ?thesis by simp
  qed
qed

lemma matchPlaceholder_shape:
  "matchPlaceholder s = Some (name, rest) \<Longrightarrow> s = ''{{'' @ name @ ''}}'' @ rest"
proof -
  assume m: "matchPlaceholder s = Some (name, rest)"
  then have sw: "startsWith s ''{{''" and l: "lazyTagName (drop 2 s) = Some (name, rest)"
    by (auto simp: matchPlaceholder_def split: if_splits)
  from sw have "s = ''{{'' @ drop 2 s"
    by (metis append_take_drop_id startsWith_def length_Cons list.size(3) numeral_2_eq_2)
  with lazyTagName_shape[OF l] show ?thesis by simp
qed

lemma replacePlaceholders_unknown:
  "\<forall>n\<in>set (placeholderNames t). n \<notin> set builtinTags \<Longrightarrow> replacePlaceholders P ctx t = Inr t"
proof (induction t rule: placeholderNames.induct)
  case 1
  then show ?case by simp
next
  case (2 c cs)
  show ?case
  proof (cases "matchPlaceholder (c # cs)")
    case None
    with 2 show ?thesis by simp
  next
    case (Some m)
    obtain name rest where m: "m = (name, rest)" by (cases m)
    from 2 Some m have unk: "name \<notin> set builtinTags"
      and rest: "replacePlaceholders P ctx rest = Inr rest"
      by simp_all
    have "c # cs = ''{{'' @ name @ ''}}'' @ rest"
      using matchPlaceholder_shape Some m by simp
    then show ?thesis
      using Some m rest resolveTag_default[OF unk, of P ctx] by simp
  qed
qed

lemma resolveConditionals_none:
  "conditionalNames t = [] \<Longrightarrow> resolveConditionals P ctx t = Inr t"
  by (induction t rule: conditionalNames.induct) (auto split: option.splits)

text \<open>
  C6. A tag name without a case of its own resolves to itself in double braces, for every
  render context. So a text whose placeholders all carry such names comes out of step 2
  as it went in, and a template with no conditional block and only such placeholders
  comes out of \<^verbatim>\<open>processTemplate\<close> as it went in; neither throws.
\<close>

theorem unknown_tags_pass_through:
  "(tagName \<notin> set builtinTags \<longrightarrow> resolveTag P tagName ctx = Inr (''{{'' @ tagName @ ''}}''))
   \<and> ((\<forall>n\<in>set (placeholderNames t). n \<notin> set builtinTags)
        \<longrightarrow> replacePlaceholders P ctx t = Inr t)
   \<and> (conditionalNames t = [] \<and> (\<forall>n\<in>set (placeholderNames t). n \<notin> set builtinTags)
        \<longrightarrow> processTemplate P t ctx = Inr t)"
  by (simp add: resolveTag_default replacePlaceholders_unknown resolveConditionals_none
      processTemplate_def)

theorem unknown_tags_pass_through_witness:
  "''unknown-thing'' \<notin> set builtinTags
   \<and> conditionalNames ''<p>{{unknown-thing}} {{#if}}</p>'' = []
   \<and> placeholderNames ''<p>{{unknown-thing}} {{#if}}</p>'' = [''unknown-thing'', ''#if'']
   \<and> resolveTag sampleCollaborators ''unknown-thing'' sampleContext = Inr ''{{unknown-thing}}''
   \<and> processTemplate sampleCollaborators ''<p>{{unknown-thing}} {{#if}}</p>'' sampleContext
       = Inr ''<p>{{unknown-thing}} {{#if}}</p>''"
proof -
  have u: "''unknown-thing'' \<notin> set builtinTags"
    by code_simp
  have c: "conditionalNames ''<p>{{unknown-thing}} {{#if}}</p>'' = []"
    by code_simp
  have p: "placeholderNames ''<p>{{unknown-thing}} {{#if}}</p>'' = [''unknown-thing'', ''#if'']"
    by code_simp
  have a: "\<forall>n\<in>set (placeholderNames ''<p>{{unknown-thing}} {{#if}}</p>''). n \<notin> set builtinTags"
    unfolding p by code_simp
  note t = unknown_tags_pass_through[of "''unknown-thing''" sampleCollaborators sampleContext
        "''<p>{{unknown-thing}} {{#if}}</p>''"]
  from t u have r: "resolveTag sampleCollaborators ''unknown-thing'' sampleContext = Inr ''{{unknown-thing}}''"
    by simp
  from t c a have q: "processTemplate sampleCollaborators ''<p>{{unknown-thing}} {{#if}}</p>'' sampleContext
       = Inr ''<p>{{unknown-thing}} {{#if}}</p>''"
    by blast
  from u c p r q show ?thesis
    by blast
qed

section \<open>Properties of the navigation\<close>







lemma returnsOn_iff:
  "returnsOn cmp xs \<longleftrightarrow> (\<forall>a\<in>set xs. \<forall>b\<in>set xs. \<exists>n. cmp a b = Inr n)"
proof -
  have "(case cmp a b of Inl e \<Rightarrow> False | Inr n \<Rightarrow> True) \<longleftrightarrow> (\<exists>n. cmp a b = Inr n)" for a b
    by (cases "cmp a b") auto
  then show ?thesis by (simp add: returnsOn_def list_all_iff)
qed

lemma throwsOn_iff:
  "throwsOn cmp xs e \<longleftrightarrow> (\<forall>a\<in>set xs. \<forall>b\<in>set xs. cmp a b = Inl e)"
  by (simp add: throwsOn_def list_all_iff)

lemma sortWith_short: "length xs < 2 \<Longrightarrow> sortWith cmp xs = xs"
proof (cases xs)
  case Nil
  then show ?thesis by (simp add: sortWith_def)
next
  case (Cons x ys)
  assume "length xs < 2"
  with Cons have "ys = []" by simp
  with Cons show ?thesis by (simp add: sortWith_def)
qed

lemma arraySort_returns:
  "returnsOn cmp xs \<Longrightarrow> arraySort P cmp xs = Inr (sortWith (\<lambda>a b. returned (cmp a b)) xs)"
  by (simp add: arraySort_def sortWith_short)


lemma navCompare_strings:
  "\<forall>item\<in>set items. \<exists>s. nav_label item = Str s \<Longrightarrow> returnsOn (navCompare P) items"
  unfolding returnsOn_iff
proof (intro ballI)
  fix a b
  assume s: "\<forall>item\<in>set items. \<exists>s. nav_label item = Str s" and "a \<in> set items" "b \<in> set items"
  then obtain t where "nav_label a = Str t" by blast
  then show "\<exists>n. navCompare P a b = Inr n"
    by (simp add: navCompare_def Let_def)
qed



lemma navItemsOf_rootPages:
  "concat (map (navItemsOf P bp disk) files) = map (navItemFor bp) (rootPages P disk files)"
  by (induction files) (auto simp: navItemsOf_def rootPages_def navItemFor_def split: sum.splits)


text \<open>
  The example of two pages: a document with Short-URI \<^verbatim>\<open>blog\<close>, parent \<^verbatim>\<open>root\<close> and order 2
  and one with Short-URI \<^verbatim>\<open>home\<close>, parent \<^verbatim>\<open>root\<close> and order 1, their titles strings, give the
  navigation home, blog.
\<close>

lemma navigation_example:
  assumes b: "readPageMetadata P disk fb = Inr mb" "pm_shortUri mb = ''blog''"
      "pm_parent mb = ''root''" "pm_order mb = 2" "pm_title mb = Str tb"
    and h: "readPageMetadata P disk fh = Inr mh" "pm_shortUri mh = ''home''"
      "pm_parent mh = ''root''" "pm_order mh = 1" "pm_title mh = Str th"
  shows "generateNavigation P bp disk [fb, fh] = Inr [navItemFor bp (fh, mh), navItemFor bp (fb, mb)]"
proof -
  have i: "concat (map (navItemsOf P bp disk) [fb, fh]) = [navItemFor bp (fb, mb), navItemFor bp (fh, mh)]"
    using b h by (simp add: navItemsOf_def navItemFor_def)
  have l: "\<forall>item\<in>set [navItemFor bp (fb, mb), navItemFor bp (fh, mh)]. \<exists>s. nav_label item = Str s"
    using b h by (simp add: navItemFor_def orElse_def)
  have c: "returned (navCompare P (navItemFor bp (fb, mb)) (navItemFor bp (fh, mh))) = 1"
    using b h by (simp add: navCompare_def navItemFor_def returned_def)
  show ?thesis
    unfolding generateNavigation_def i arraySort_returns[OF navCompare_strings[OF l]]
    using c by (simp add: sortWith_def)
qed

lemma absent_parent_is_root:
  "parsePageMetadata P content = Inr metadata \<Longrightarrow> parseFrontmatter P content = Inr (data, body) \<Longrightarrow>
   fm_Parent data = Undefined \<or> fm_Parent data = Null \<or> fm_Parent data = Str [] \<or> fm_Parent data = Str ''root'' \<Longrightarrow>
   pm_parent metadata = ''root''"
  by (auto simp: parsePageMetadata_def Let_def split: if_splits option.splits)

lemma sample_consistentCompare: "consistentCompare sampleCollaborators"
  by (auto simp: consistentCompare_def sampleCollaborators_def)

lemma navigation_sample:
  "map nav_href (projr (generateNavigation sampleCollaborators [] sampleDisk [blogFile, draftFile, homeFile]))
     = [''/'', ''/blog'']"
  by code_simp

text \<open>
  Where every item has a label that is no string, and all have the same order, the
  comparator throws on every pair; with two items or more, so does the sort.
\<close>

lemma navigation_throws:
  assumes n: "2 \<le> length (rootPages P disk files)"
    and t: "\<forall>page\<in>set (rootPages P disk files).
              pm_order (snd page) = k \<and> (\<exists>n. n \<noteq> 0 \<and> pm_title (snd page) = Num n)"
  shows "generateNavigation P bp disk files = Inl (TypeError ''a.label.localeCompare is not a function'')"
proof -
  let ?items = "map (navItemFor bp) (rootPages P disk files)"
  let ?e = "TypeError ''a.label.localeCompare is not a function''"
  have c: "navCompare P a b = Inl ?e" if "a \<in> set ?items" "b \<in> set ?items" for a b
  proof -
    have l: "nav_order i = Some k \<and> (\<exists>x. nav_label i = Num x)" if "i \<in> set ?items" for i
    proof -
      from that obtain page where p: "page \<in> set (rootPages P disk files)" "i = navItemFor bp page"
        by auto
      with t obtain x where "pm_order (snd page) = k" "x \<noteq> 0" "pm_title (snd page) = Num x"
        by blast
      with p show ?thesis by (simp add: navItemFor_def orElse_def)
    qed
    from l[OF that(1)] l[OF that(2)] show ?thesis
      by (auto simp: navCompare_def)
  qed
  from n obtain p ps where p: "rootPages P disk files = p # ps"
    by (cases "rootPages P disk files") auto
  then have h: "hd ?items \<in> set ?items" by simp
  have th: "throwsOn (navCompare P) ?items ?e"
    unfolding throwsOn_iff using c by blast
  have "\<not> (\<exists>n. navCompare P (hd ?items) (hd ?items) = Inr n)"
    using c[OF h h] by simp
  with h have "\<not> returnsOn (navCompare P) ?items"
    unfolding returnsOn_iff by blast
  with n th c[OF h h] show ?thesis
    unfolding generateNavigation_def navItemsOf_rootPages
    by (simp add: arraySort_def)
qed

text \<open>
  C7. Two documents whose header gives a number as title, both pages of the root with
  no order of their own: the comparator of \<^verbatim>\<open>generateNavigation\<close> calls \<^verbatim>\<open>localeCompare\<close> on
  a number, the sort throws, and the build ends before a page is written. No navigation
  is produced.
\<close>

theorem navigation_throws_on_numeric_titles:
  "map (\<lambda>page. (cf_relativePath (fst page), pm_title (snd page), pm_parent (snd page),
                pm_order (snd page)))
     (rootPages sampleCollaborators sampleDisk [notFoundFile, yearFile])
     = [(''404.md'', Num 404, ''root'', 999), (''2024.md'', Num 2024, ''root'', 999)]
   \<and> generateNavigation sampleCollaborators [] sampleDisk [notFoundFile, yearFile]
     = Inl (TypeError ''a.label.localeCompare is not a function'')
   \<and> build sampleCollaborators sampleConfig [] sampleDisk [notFoundFile, yearFile]
     = ([Mkdir ''dist''], Some (TypeError ''a.label.localeCompare is not a function''))"
  by code_simp

section \<open>Properties of the build\<close>

lemma concat_map_filter:
  "(\<And>x. \<not> Q x \<Longrightarrow> g x = []) \<Longrightarrow> concat (map g xs) = concat (map g (filter Q xs))"
  by (induction xs) auto

lemma foldl_filter:
  "(\<And>acc x. \<not> Q x \<Longrightarrow> f acc x = acc) \<Longrightarrow> foldl f acc xs = foldl f acc (filter Q xs)"
  by (induction xs arbitrary: acc) auto

lemma generateNavigation_skips:
  "generateNavigation P bp disk files = generateNavigation P bp disk (filter (metadataParses P disk) files)"
  unfolding generateNavigation_def
  by (rule arg_cong[where f = "arraySort P (navCompare P)"], rule concat_map_filter)
     (simp add: navItemsOf_def metadataParses_def split: sum.splits)

lemma collectSiteLabels_skips:
  "collectSiteLabels P disk files = collectSiteLabels P disk (filter (metadataParses P disk) files)"
  unfolding collectSiteLabels_def
  by (rule foldl_filter) (simp add: metadataParses_def split: sum.splits)

lemma collectChildrenMap_skips:
  "collectChildrenMap P bp disk files = collectChildrenMap P bp disk (filter (metadataParses P disk) files)"
  unfolding collectChildrenMap_def
  by (rule foldl_filter) (simp add: metadataParses_def split: sum.splits)

lemma collectAllPageMetadata_skips:
  "collectAllPageMetadata P bp disk files
   = collectAllPageMetadata P bp disk (filter (metadataParses P disk) files)"
  unfolding collectAllPageMetadata_def
  by (rule concat_map_filter) (simp add: metadataParses_def split: sum.splits)

text \<open>The page that \<^verbatim>\<open>renderPage\<close> makes holds the content it is given.\<close>

lemma mid_here: "\<exists>a b. c @ q = a @ c @ b"
  by (rule exI[of _ "[]"]) simp

lemma mid_prepend: "\<exists>a b. s = a @ c @ b \<Longrightarrow> \<exists>a b. x @ s = a @ c @ (b :: string)"
  by (metis append.assoc)

lemma mid_trans:
  "\<exists>a b. s = a @ c @ b \<Longrightarrow> \<exists>a b. c = a @ x @ b \<Longrightarrow> \<exists>a b. s = a @ x @ (b :: string)"
  by (metis append.assoc)

lemma Layout_render_children:
  "\<exists>a b. Layout_render P title description keywords children cssFiles jsFiles siteLabels basePath
         = a @ children @ b"
  unfolding Layout_render_def Let_def
  by (intro mid_prepend mid_here)

lemma renderPage_content: "\<exists>before after. renderPage P d = before @ pd_content d @ after"
proof -
  define pageContent where "pageContent =
     (case pd_navigation d of
        None \<Rightarrow> mainOpen @ pd_content d @ ''</main>''
      | Some navigation \<Rightarrow>
          if length navigation > 0
          then Navigation_render P navigation @ nl @ mainOpen @ pd_content d @ ''</main>''
          else mainOpen @ pd_content d @ ''</main>'')"
  have c: "\<exists>a b. pageContent = a @ pd_content d @ b"
    unfolding pageContent_def
    by (cases "pd_navigation d") (auto intro!: mid_prepend mid_here)
  have "\<exists>a b. renderPage P d = a @ pageContent @ b"
    unfolding renderPage_def Let_def pageContent_def by (rule Layout_render_children)
  from mid_trans[OF this c] show ?thesis .
qed

text \<open>
  What the render loop writes for a file it can read and compile: the page that
  \<^verbatim>\<open>renderPage\<close> makes of the compiled HTML, the header, the navigation and the site labels.
\<close>

lemma renderFile_page:
  assumes r: "disk (cf_path f) = Inr content"
    and c: "compileWithFrontmatter P (resolveChildren P cm content) = Inr (html, data)"
  shows "\<exists>d before after.
           renderFile P config bp disk nav cm sl f
             = Inr [Mkdir (path_dirname P (pageOutputPath P config f)),
                    WriteFile (pageOutputPath P config f) (renderPage P d)]
           \<and> pd_content d = html \<and> pd_frontmatter d = Some data
           \<and> pd_title d = orElse (fm_title data)
                          (orElse (case defaultTitle config of None \<Rightarrow> Undefined | Some t \<Rightarrow> Str t)
                             (Str ''Untitled''))
           \<and> pd_path d = cf_relativePath f
           \<and> pd_navigation d = Some (activeNavigation bp f nav)
           \<and> pd_siteLabels d = Some sl \<and> pd_basePath d = Some bp
           \<and> renderPage P d = before @ html @ after"
proof -
  define d where "d =
     \<lparr>pd_title = orElse (fm_title data)
                   (orElse (case defaultTitle config of None \<Rightarrow> Undefined | Some t \<Rightarrow> Str t)
                      (Str ''Untitled'')),
      pd_content = html, pd_path = cf_relativePath f,
      pd_description = orElse (fm_Description data) (orElse (fm_description data) Undefined),
      pd_keywords = (case fm_Keywords data of
                       Arr xs \<Rightarrow> Str (joinValues P '', '' xs)
                     | v \<Rightarrow>
                         if truthy v then v
                         else (case fm_keywords data of
                                 Arr ys \<Rightarrow> Str (joinValues P '', '' ys)
                               | w \<Rightarrow> w)),
      pd_frontmatter = Some data, pd_navigation = Some (activeNavigation bp f nav),
      pd_cssFiles = None, pd_jsFiles = None,
      pd_siteLabels = Some sl, pd_basePath = Some bp\<rparr>"
  have f: "renderFile P config bp disk nav cm sl f
             = Inr [Mkdir (path_dirname P (pageOutputPath P config f)),
                    WriteFile (pageOutputPath P config f) (renderPage P d)]"
    using r c
    by (simp add: renderFile_def processFile_def pageOutputPath_def activeNavigation_def Let_def d_def)
  have p: "pd_content d = html" "pd_frontmatter d = Some data"
    "pd_title d = orElse (fm_title data)
                   (orElse (case defaultTitle config of None \<Rightarrow> Undefined | Some t \<Rightarrow> Str t)
                      (Str ''Untitled''))"
    "pd_path d = cf_relativePath f"
    "pd_navigation d = Some (activeNavigation bp f nav)"
    "pd_siteLabels d = Some sl" "pd_basePath d = Some bp"
    by (simp_all add: d_def)
  from renderPage_content[of P d] p(1) obtain before after where
    "renderPage P d = before @ html @ after"
    by auto
  with f p show ?thesis by blast
qed

lemma rendersFile_iff:
  "rendersFile P cm disk file
   \<longleftrightarrow> (\<exists>content html data. disk (cf_path file) = Inr content
          \<and> compileWithFrontmatter P (resolveChildren P cm content) = Inr (html, data))"
  by (auto simp: rendersFile_def split: sum.splits)

lemma renderFile_result:
  "renderFile P config bp disk nav cm sl file = Inr ops \<Longrightarrow>
   rendersFile P cm disk file
   \<and> (\<exists>page. ops = [Mkdir (path_dirname P (pageOutputPath P config file)),
                     WriteFile (pageOutputPath P config file) page])"
  by (auto simp: renderFile_def rendersFile_def processFile_def pageOutputPath_def Let_def
      split: sum.splits)

lemma rendersFile_renderFile:
  "rendersFile P cm disk file \<Longrightarrow> \<exists>ops. renderFile P config bp disk nav cm sl file = Inr ops"
  by (auto simp: renderFile_def rendersFile_def processFile_def Let_def split: sum.splits)

lemma renderFiles_completes:
  "snd (renderFiles P config bp disk nav cm sl files) = None
   \<longleftrightarrow> (\<forall>f\<in>set files. rendersFile P cm disk f)"
proof (induction files)
  case Nil
  then show ?case by simp
next
  case (Cons f fs)
  show ?case
  proof (cases "renderFile P config bp disk nav cm sl f")
    case (Inl e)
    then have "\<not> rendersFile P cm disk f"
      using rendersFile_renderFile[of P cm disk f config bp nav sl] by auto
    with Inl show ?thesis by simp
  next
    case (Inr ops)
    then have "rendersFile P cm disk f"
      using renderFile_result by blast
    with Inr Cons show ?thesis
      by (cases "renderFiles P config bp disk nav cm sl fs") auto
  qed
qed

lemma renderFiles_ops:
  "snd (renderFiles P config bp disk nav cm sl files) = None \<Longrightarrow> f \<in> set files \<Longrightarrow>
   \<exists>ops. renderFile P config bp disk nav cm sl f = Inr ops
         \<and> set ops \<subseteq> set (fst (renderFiles P config bp disk nav cm sl files))"
proof (induction files)
  case Nil
  then show ?case by simp
next
  case (Cons g gs)
  from Cons.prems(1) obtain ops where g: "renderFile P config bp disk nav cm sl g = Inr ops"
    by (cases "renderFile P config bp disk nav cm sl g") auto
  with Cons.prems(1) have rest: "snd (renderFiles P config bp disk nav cm sl gs) = None"
    by (simp split: prod.splits)
  show ?case
  proof (cases "f = g")
    case True
    with g show ?thesis by (auto split: prod.splits)
  next
    case False
    with Cons.prems(2) have "f \<in> set gs" by simp
    from Cons.IH[OF rest this] g show ?thesis by (auto split: prod.splits)
  qed
qed

lemma build_completes:
  "snd (build P config bp disk files) = None
   \<longleftrightarrow> (\<exists>navigation. generateNavigation P bp disk files = Inr navigation)
       \<and> (\<forall>f\<in>set files. rendersFile P (collectChildrenMap P bp disk files) disk f)
       \<and> (\<exists>pageIndex. generatePageIndex P (collectAllPageMetadata P bp disk files) = Inr pageIndex)"
proof (cases "generateNavigation P bp disk files")
  case (Inl e)
  then show ?thesis by (simp add: build_def)
next
  case (Inr nav)
  let ?r = "renderFiles P config bp disk nav
              (collectChildrenMap P bp disk files) (collectSiteLabels P disk files) files"
  have c: "snd ?r = None \<longleftrightarrow> (\<forall>f\<in>set files. rendersFile P (collectChildrenMap P bp disk files) disk f)"
    by (rule renderFiles_completes)
  show ?thesis
  proof (cases ?r)
    case (Pair ops r)
    then show ?thesis
      using c Inr by (cases r) (auto simp: build_def Let_def split: sum.splits)
  qed
qed

text \<open>
  What a build that is not ended by an exception has done: sorted the navigation, and
  done all that the render loop does for each content file.
\<close>

lemma build_render_ops:
  assumes "snd (build P config bp disk files) = None" and "f \<in> set files"
  shows "\<exists>navigation ops. generateNavigation P bp disk files = Inr navigation
           \<and> renderFile P config bp disk navigation (collectChildrenMap P bp disk files)
                (collectSiteLabels P disk files) f = Inr ops
           \<and> set ops \<subseteq> set (fst (build P config bp disk files))"
proof -
  from assms(1) obtain nav where n: "generateNavigation P bp disk files = Inr nav"
    by (cases "generateNavigation P bp disk files") (auto simp: build_def)
  let ?r = "renderFiles P config bp disk nav
              (collectChildrenMap P bp disk files) (collectSiteLabels P disk files) files"
  obtain ops r where p: "?r = (ops, r)" by (cases ?r)
  from assms(1) p n have r: "r = None"
    by (cases r) (auto simp: build_def Let_def split: sum.splits)
  with p have "snd ?r = None" by simp
  from renderFiles_ops[OF this assms(2)] p obtain fops where
    w: "renderFile P config bp disk nav (collectChildrenMap P bp disk files)
          (collectSiteLabels P disk files) f = Inr fops" "set fops \<subseteq> set ops"
    by auto
  from assms(1) p r n obtain pageIndex where
    "generatePageIndex P (collectAllPageMetadata P bp disk files) = Inr pageIndex"
    by (auto simp: build_def Let_def split: sum.splits)
  with p r n have "set ops \<subseteq> set (fst (build P config bp disk files))"
    by (auto simp: build_def Let_def)
  with n w show ?thesis by blast
qed

lemma build_writes_pages:
  assumes b: "snd (build P config bp disk files) = None" and f: "f \<in> set files"
  shows "\<exists>navigation content html data d before after.
           generateNavigation P bp disk files = Inr navigation
         \<and> disk (cf_path f) = Inr content
         \<and> compileWithFrontmatter P (resolveChildren P (collectChildrenMap P bp disk files) content)
             = Inr (html, data)
         \<and> WriteFile (pageOutputPath P config f) (renderPage P d)
             \<in> set (fst (build P config bp disk files))
         \<and> pd_content d = html \<and> pd_frontmatter d = Some data
         \<and> pd_navigation d = Some (activeNavigation bp f navigation)
         \<and> pd_siteLabels d = Some (collectSiteLabels P disk files)
         \<and> pd_basePath d = Some bp
         \<and> renderPage P d = before @ html @ after"
proof -
  let ?cm = "collectChildrenMap P bp disk files"
  let ?sl = "collectSiteLabels P disk files"
  from build_render_ops[OF b f] obtain nav ops where
    n: "generateNavigation P bp disk files = Inr nav"
    and o: "renderFile P config bp disk nav ?cm ?sl f = Inr ops"
    and s: "set ops \<subseteq> set (fst (build P config bp disk files))"
    by blast
  from renderFile_result[OF o] have "rendersFile P ?cm disk f" by blast
  then obtain content html data where
    r: "disk (cf_path f) = Inr content"
    and c: "compileWithFrontmatter P (resolveChildren P ?cm content) = Inr (html, data)"
    unfolding rendersFile_iff by blast
  from renderFile_page[where disk = disk and f = f and content = content and P = P
      and cm = ?cm and html = html and data = data and config = config and bp = bp
      and nav = nav and sl = ?sl, OF r c]
  obtain d before after where
    p: "renderFile P config bp disk nav ?cm ?sl f
          = Inr [Mkdir (path_dirname P (pageOutputPath P config f)),
                 WriteFile (pageOutputPath P config f) (renderPage P d)]"
      "pd_content d = html" "pd_frontmatter d = Some data"
      "pd_navigation d = Some (activeNavigation bp f nav)"
      "pd_siteLabels d = Some ?sl" "pd_basePath d = Some bp"
      "renderPage P d = before @ html @ after"
    by blast
  from p(1) o s have "WriteFile (pageOutputPath P config f) (renderPage P d)
      \<in> set (fst (build P config bp disk files))"
    by auto
  with n r c p show ?thesis by blast
qed

lemma build_writes_index:
  assumes "snd (build P config bp disk files) = None"
  shows "\<exists>pageIndex. generatePageIndex P (collectAllPageMetadata P bp disk files) = Inr pageIndex
           \<and> WriteFile (pageIndexPath P config) (JSON_stringify P pageIndex)
                \<in> set (fst (build P config bp disk files))"
proof -
  from assms obtain nav where n: "generateNavigation P bp disk files = Inr nav"
    by (cases "generateNavigation P bp disk files") (auto simp: build_def)
  let ?r = "renderFiles P config bp disk nav
              (collectChildrenMap P bp disk files) (collectSiteLabels P disk files) files"
  obtain ops r where p: "?r = (ops, r)" by (cases ?r)
  from assms(1) p n have r: "r = None"
    by (cases r) (auto simp: build_def Let_def split: sum.splits)
  from assms(1) p r n obtain pageIndex where
    g: "generatePageIndex P (collectAllPageMetadata P bp disk files) = Inr pageIndex"
    by (auto simp: build_def Let_def split: sum.splits)
  with p r n show ?thesis
    by (auto simp: build_def Let_def pageIndexPath_def)
qed

lemma writtenPaths_append: "writtenPaths (xs @ ys) = writtenPaths xs @ writtenPaths ys"
  by (induction xs rule: writtenPaths.induct) simp_all

lemma WriteFile_writtenPaths: "WriteFile path text \<in> set ops \<Longrightarrow> path \<in> set (writtenPaths ops)"
  by (induction ops rule: writtenPaths.induct) auto

lemma sample_navigation:
  "\<exists>navigation. generateNavigation sampleCollaborators [] sampleDisk [blogFile, homeFile] = Inr navigation"
proof -
  have "case generateNavigation sampleCollaborators [] sampleDisk [blogFile, homeFile] of
          Inl e \<Rightarrow> False | Inr navigation \<Rightarrow> True"
    by code_simp
  then show ?thesis
    by (cases "generateNavigation sampleCollaborators [] sampleDisk [blogFile, homeFile]") auto
qed

lemma sample_renders:
  "\<forall>f\<in>set [blogFile, draftFile, homeFile].
     rendersFile sampleCollaborators
       (collectChildrenMap sampleCollaborators [] sampleDisk [blogFile, draftFile, homeFile]) sampleDisk f"
  by code_simp

lemma sample_index:
  "\<exists>pageIndex. generatePageIndex sampleCollaborators
     (collectAllPageMetadata sampleCollaborators [] sampleDisk [blogFile, draftFile, homeFile]) = Inr pageIndex"
  by (simp add: sampleCollaborators_def)

lemma sample_filter:
  "filter (metadataParses sampleCollaborators sampleDisk) [blogFile, draftFile, homeFile]
   = [blogFile, homeFile]"
  by code_simp

lemma parsePageMetadata_errors:
  "parseFrontmatter P content = Inl e \<Longrightarrow> parsePageMetadata P content = Inl e"
  "parseFrontmatter P content = Inr (data, body) \<Longrightarrow> \<not> truthy (fm_ShortURI data) \<Longrightarrow>
   parsePageMetadata P content = Inl (Error ''Short-URI is required'')"
  by (simp_all add: parsePageMetadata_def)








text \<open>
  C9. A content file that the render loop can read and compile gets its page written at
  its output path, whether its metadata parses or not: the page that \<^verbatim>\<open>renderPage\<close> makes
  of the HTML the compiler gave for the document, of its header, of the navigation and of
  the site labels, and the compiled HTML stands in that page. So, when the build is not
  ended by an exception, every content file has that page among the files written. What
  leaves out a document whose metadata does not parse are the navigation, the site
  labels, the children map and the metadata the page index is generated from.
\<close>

theorem invalid_metadata_still_rendered:
  "(disk (cf_path f) = Inr content
      \<and> compileWithFrontmatter P (resolveChildren P cm content) = Inr (html, data)
      \<longrightarrow> (\<exists>d before after.
             renderFile P config bp disk nav cm sl f
               = Inr [Mkdir (path_dirname P (pageOutputPath P config f)),
                      WriteFile (pageOutputPath P config f) (renderPage P d)]
             \<and> pd_content d = html \<and> pd_frontmatter d = Some data
             \<and> pd_title d = orElse (fm_title data)
                            (orElse (case defaultTitle config of None \<Rightarrow> Undefined | Some t \<Rightarrow> Str t)
                               (Str ''Untitled''))
             \<and> pd_path d = cf_relativePath f
             \<and> pd_navigation d = Some (activeNavigation bp f nav)
             \<and> pd_siteLabels d = Some sl \<and> pd_basePath d = Some bp
             \<and> renderPage P d = before @ html @ after))
   \<and> (snd (build P config bp disk files) = None
      \<longrightarrow> (\<forall>g\<in>set files. \<exists>navigation content html data d before after.
             generateNavigation P bp disk files = Inr navigation
           \<and> disk (cf_path g) = Inr content
           \<and> compileWithFrontmatter P (resolveChildren P (collectChildrenMap P bp disk files) content)
               = Inr (html, data)
           \<and> WriteFile (pageOutputPath P config g) (renderPage P d)
               \<in> set (fst (build P config bp disk files))
           \<and> pd_content d = html \<and> pd_frontmatter d = Some data
           \<and> pd_navigation d = Some (activeNavigation bp g navigation)
           \<and> pd_siteLabels d = Some (collectSiteLabels P disk files)
           \<and> pd_basePath d = Some bp
           \<and> renderPage P d = before @ html @ after))
   \<and> generateNavigation P bp disk files
     = generateNavigation P bp disk (filter (metadataParses P disk) files)
   \<and> collectSiteLabels P disk files
     = collectSiteLabels P disk (filter (metadataParses P disk) files)
   \<and> collectChildrenMap P bp disk files
     = collectChildrenMap P bp disk (filter (metadataParses P disk) files)
   \<and> collectAllPageMetadata P bp disk files
     = collectAllPageMetadata P bp disk (filter (metadataParses P disk) files)"
proof (intro conjI impI ballI)
  assume a: "disk (cf_path f) = Inr content
      \<and> compileWithFrontmatter P (resolveChildren P cm content) = Inr (html, data)"
  then have r: "disk (cf_path f) = Inr content"
    and c: "compileWithFrontmatter P (resolveChildren P cm content) = Inr (html, data)"
    by blast+
  from r c show "\<exists>d before after.
             renderFile P config bp disk nav cm sl f
               = Inr [Mkdir (path_dirname P (pageOutputPath P config f)),
                      WriteFile (pageOutputPath P config f) (renderPage P d)]
             \<and> pd_content d = html \<and> pd_frontmatter d = Some data
             \<and> pd_title d = orElse (fm_title data)
                            (orElse (case defaultTitle config of None \<Rightarrow> Undefined | Some t \<Rightarrow> Str t)
                               (Str ''Untitled''))
             \<and> pd_path d = cf_relativePath f
             \<and> pd_navigation d = Some (activeNavigation bp f nav)
             \<and> pd_siteLabels d = Some sl \<and> pd_basePath d = Some bp
             \<and> renderPage P d = before @ html @ after"
    by (rule renderFile_page)
next
  fix g
  assume "snd (build P config bp disk files) = None" and "g \<in> set files"
  then show "\<exists>navigation content html data d before after.
             generateNavigation P bp disk files = Inr navigation
           \<and> disk (cf_path g) = Inr content
           \<and> compileWithFrontmatter P (resolveChildren P (collectChildrenMap P bp disk files) content)
               = Inr (html, data)
           \<and> WriteFile (pageOutputPath P config g) (renderPage P d)
               \<in> set (fst (build P config bp disk files))
           \<and> pd_content d = html \<and> pd_frontmatter d = Some data
           \<and> pd_navigation d = Some (activeNavigation bp g navigation)
           \<and> pd_siteLabels d = Some (collectSiteLabels P disk files)
           \<and> pd_basePath d = Some bp
           \<and> renderPage P d = before @ html @ after"
    by (rule build_writes_pages)
qed (rule generateNavigation_skips collectSiteLabels_skips collectChildrenMap_skips
      collectAllPageMetadata_skips)+

theorem invalid_metadata_still_rendered_witness:
  "\<not> metadataParses sampleCollaborators sampleDisk draftFile
   \<and> snd (build sampleCollaborators sampleConfig [] sampleDisk [blogFile, draftFile, homeFile]) = None
   \<and> pageOutputPath sampleCollaborators sampleConfig draftFile = ''dist/draft/index.html''
   \<and> (\<exists>before after. WriteFile ''dist/draft/index.html'' (before @ ''<p># Draft</p>'' @ after)
         \<in> set (fst (build sampleCollaborators sampleConfig [] sampleDisk
                        [blogFile, draftFile, homeFile])))
   \<and> collectAllPageMetadata sampleCollaborators [] sampleDisk [blogFile, draftFile, homeFile]
     = collectAllPageMetadata sampleCollaborators [] sampleDisk [blogFile, homeFile]"
proof -
  let ?P = sampleCollaborators
  let ?files = "[blogFile, draftFile, homeFile]"
  note t = invalid_metadata_still_rendered[of sampleDisk draftFile draftDocument ?P
      "collectChildrenMap ?P [] sampleDisk ?files" "''<p># Draft</p>''" _ sampleConfig "[]" _ _ ?files]
  have d: "\<not> metadataParses ?P sampleDisk draftFile"
    by code_simp
  have b: "snd (build ?P sampleConfig [] sampleDisk ?files) = None"
    unfolding build_completes generateNavigation_skips[of ?P "[]" sampleDisk ?files] sample_filter
    using sample_navigation sample_renders sample_index by blast
  have o: "pageOutputPath ?P sampleConfig draftFile = ''dist/draft/index.html''"
    by code_simp
  have disk: "sampleDisk (cf_path draftFile) = Inr draftDocument"
    by code_simp
  have compiled: "fst (projr (compileWithFrontmatter ?P
      (resolveChildren ?P (collectChildrenMap ?P [] sampleDisk ?files) draftDocument)))
      = ''<p># Draft</p>''"
    by code_simp
  have g: "draftFile \<in> set ?files" by simp
  from t b g obtain content html data page before after where
    w: "sampleDisk (cf_path draftFile) = Inr content"
      "compileWithFrontmatter ?P
         (resolveChildren ?P (collectChildrenMap ?P [] sampleDisk ?files) content) = Inr (html, data)"
      "WriteFile (pageOutputPath ?P sampleConfig draftFile) (renderPage ?P page)
         \<in> set (fst (build ?P sampleConfig [] sampleDisk ?files))"
      "renderPage ?P page = before @ html @ after"
    by blast
  from w(1) disk have "content = draftDocument" by simp
  with w(2) compiled have "html = ''<p># Draft</p>''" by simp
  with w(3,4) have "\<exists>before after. WriteFile ''dist/draft/index.html'' (before @ ''<p># Draft</p>'' @ after)
         \<in> set (fst (build ?P sampleConfig [] sampleDisk ?files))"
    unfolding o by auto
  moreover from t have "collectAllPageMetadata ?P [] sampleDisk ?files
     = collectAllPageMetadata ?P [] sampleDisk [blogFile, homeFile]"
    unfolding sample_filter by blast
  ultimately show ?thesis using d b o by blast
qed

text \<open>
  When the build is not ended by an exception, the page index has been generated from
  the metadata of the documents that parse, and its JSON text has been written to
  \<^verbatim>\<open>page-index.json\<close> in the directory \<^verbatim>\<open>fragments\<close> of the output directory.
\<close>

lemma build_writes_page_index:
  "snd (build P config bp disk files) = None
   \<longrightarrow> (\<exists>pageIndex. generatePageIndex P (collectAllPageMetadata P bp disk files) = Inr pageIndex
          \<and> WriteFile (pageIndexPath P config) (JSON_stringify P pageIndex)
               \<in> set (fst (build P config bp disk files)))"
  using build_writes_index by blast

text \<open>
  What \<^verbatim>\<open>generateLabelIndexPages\<close> writes: the listing pages of the labels that the label
  lists of the page index name twice or more. Where no page lists a label twice, these
  are the labels that two or more pages carry.
\<close>

lemma entryCount_mapPush:
  "entryCount (mapPush m k v) k' = (if k' = k then Suc (entryCount m k) else entryCount m k')"
  by (induction m k v rule: mapPush.induct) (auto simp: entryCount_def)

lemma keys_mapPush: "fst ` set (mapPush m k v) = insert k (fst ` set m)"
  by (induction m k v rule: mapPush.induct) auto

lemma distinct_mapPush: "distinct (map fst m) \<Longrightarrow> distinct (map fst (mapPush m k v))"
proof (induction m k v rule: mapPush.induct)
  case (1 k v)
  then show ?case by simp
next
  case (2 k' vs m k v)
  then show ?case
    using keys_mapPush[of m k v] by (auto simp: image_iff)
qed

lemma push_labels:
  "entryCount (foldl (\<lambda>m l. mapPush m l e) m ls) k = entryCount m k + count_list ls k
   \<and> (distinct (map fst m) \<longrightarrow> distinct (map fst (foldl (\<lambda>m l. mapPush m l e) m ls)))"
  by (induction ls arbitrary: m) (auto simp: entryCount_mapPush distinct_mapPush)

lemma push_entries:
  "entryCount (foldl (\<lambda>labelPages entry. foldl (\<lambda>m label. mapPush m label entry) labelPages
                       (pie_labels entry)) m idx) k
     = entryCount m k + count_list (concat (map pie_labels idx)) k
   \<and> (distinct (map fst m)
        \<longrightarrow> distinct (map fst (foldl (\<lambda>labelPages entry.
               foldl (\<lambda>m label. mapPush m label entry) labelPages (pie_labels entry)) m idx)))"
proof (induction idx arbitrary: m)
  case Nil
  then show ?case by simp
next
  case (Cons e es)
  show ?case
    using Cons[of "foldl (\<lambda>m label. mapPush m label e) m (pie_labels e)"]
      push_labels[of e m "pie_labels e" k]
    by simp
qed

lemma groupByLabel_count:
  "entryCount (groupByLabel idx) l = labelOccurrences idx l" and
  groupByLabel_distinct: "distinct (map fst (groupByLabel idx))"
  using push_entries[of "[]" idx l]
  by (simp_all add: groupByLabel_def labelOccurrences_def entryCount_def)

lemma writtenPaths_labelPageOps:
  "writtenPaths (labelPageOps P config bp nav sl (l, ps))
   = (if length ps < 2 then [] else [labelListingPath P config l])"
  by (simp add: labelPageOps_def labelListingPath_def Let_def)

lemma writtenPaths_concat_labelPageOps:
  "set (writtenPaths (concat (map (labelPageOps P config bp nav sl) g)))
   = labelListingPath P config ` {l. \<exists>ps. (l, ps) \<in> set g \<and> 2 \<le> length ps}"
proof (induction g)
  case Nil
  then show ?case by simp
next
  case (Cons x g)
  obtain l ps where x: "x = (l, ps)" by (cases x)
  have "{l'. \<exists>ps'. (l', ps') \<in> set ((l, ps) # g) \<and> 2 \<le> length ps'}
        = (if 2 \<le> length ps then {l} else {}) \<union> {l'. \<exists>ps'. (l', ps') \<in> set g \<and> 2 \<le> length ps'}"
    by auto
  then show ?case
    unfolding x using Cons
    by (simp add: writtenPaths_append writtenPaths_labelPageOps image_Un)
qed

lemma label_listing_paths:
  "set (writtenPaths (generateLabelIndexPages P config bp idx nav sl))
   = labelListingPath P config ` {l. 2 \<le> labelOccurrences idx l}"
proof -
  have "{l. \<exists>ps. (l, ps) \<in> set (groupByLabel idx) \<and> 2 \<le> length ps}
        = {l. 2 \<le> labelOccurrences idx l}"
  proof (intro set_eqI iffI; clarify)
    fix l ps
    assume "(l, ps) \<in> set (groupByLabel idx)" and "2 \<le> length ps"
    then show "2 \<le> labelOccurrences idx l"
      using groupByLabel_distinct[of idx] groupByLabel_count[of idx l]
      by (simp add: entryCount_def)
  next
    fix l
    assume "2 \<le> labelOccurrences idx l"
    then have "2 \<le> entryCount (groupByLabel idx) l"
      by (simp add: groupByLabel_count)
    then obtain ps where "map_of (groupByLabel idx) l = Some ps" "2 \<le> length ps"
      by (auto simp: entryCount_def split: option.splits)
    then show "\<exists>ps. (l, ps) \<in> set (groupByLabel idx) \<and> 2 \<le> length ps"
      using map_of_SomeD by fast
  qed
  then show ?thesis
    by (simp add: generateLabelIndexPages_def writtenPaths_concat_labelPageOps)
qed

lemma count_labels_distinct:
  "distinct xs \<Longrightarrow> count_list xs l = (if l \<in> set xs then 1 else 0)"
  by (induction xs) auto

lemma labelOccurrences_distinct:
  "\<forall>e\<in>set idx. distinct (pie_labels e) \<Longrightarrow>
   labelOccurrences idx l = length (filter (\<lambda>e. l \<in> set (pie_labels e)) idx)"
proof (induction idx)
  case Nil
  then show ?case by (simp add: labelOccurrences_def)
next
  case (Cons e es)
  then have "distinct (pie_labels e)" by simp
  then have "count_list (pie_labels e) l = (if l \<in> set (pie_labels e) then 1 else 0)"
    by (rule count_labels_distinct)
  with Cons show ?case by (simp add: labelOccurrences_def)
qed

text \<open>
  Every file the build writes is the page of a content file, the page index, or the
  listing page of a label.
\<close>

lemma renderFiles_written_paths:
  "set (writtenPaths (fst (renderFiles P config bp disk nav cm sl files)))
   \<subseteq> pageOutputPath P config ` set files"
proof (induction files)
  case Nil
  then show ?case by simp
next
  case (Cons f fs)
  show ?case
  proof (cases "renderFile P config bp disk nav cm sl f")
    case (Inl e)
    then show ?thesis by simp
  next
    case (Inr ops)
    from renderFile_result[OF Inr] obtain page where
      "ops = [Mkdir (path_dirname P (pageOutputPath P config f)),
              WriteFile (pageOutputPath P config f) page]"
      by blast
    with Inr Cons show ?thesis
      by (cases "renderFiles P config bp disk nav cm sl fs") (auto simp: writtenPaths_append)
  qed
qed

lemma build_written_paths:
  "set (writtenPaths (fst (build P config bp disk files)))
   \<subseteq> pageOutputPath P config ` set files \<union> {pageIndexPath P config}
       \<union> range (labelListingPath P config)"
proof (cases "generateNavigation P bp disk files")
  case (Inl e)
  then show ?thesis by (simp add: build_def)
next
  case (Inr nav)
  let ?r = "renderFiles P config bp disk nav
              (collectChildrenMap P bp disk files) (collectSiteLabels P disk files) files"
  obtain ops r where p: "?r = (ops, r)" by (cases ?r)
  have o: "set (writtenPaths ops) \<subseteq> pageOutputPath P config ` set files"
    using renderFiles_written_paths[of P config bp disk nav
        "collectChildrenMap P bp disk files" "collectSiteLabels P disk files" files] p
    by simp
  show ?thesis
  proof (cases r)
    case (Some e)
    with p o Inr show ?thesis by (auto simp: build_def Let_def)
  next
    case None
    show ?thesis
    proof (cases "generatePageIndex P (collectAllPageMetadata P bp disk files)")
      case (Inl e)
      with p o None Inr show ?thesis by (auto simp: build_def Let_def)
    next
      case idx: (Inr idx)
      have "set (writtenPaths (generateLabelIndexPages P config bp idx nav
               (collectSiteLabels P disk files)))
            \<subseteq> range (labelListingPath P config)"
        unfolding label_listing_paths by blast
      with p o None Inr idx show ?thesis
        by (auto simp: build_def Let_def writtenPaths_append pageIndexPath_def)
    qed
  qed
qed

text \<open>The configuration key \<^verbatim>\<open>siteUrl\<close> changes nothing of what the build does.\<close>

lemma renderFile_siteUrl:
  "renderFile P (config\<lparr>siteUrl := u\<rparr>) bp disk nav cm sl f = renderFile P config bp disk nav cm sl f"
  by (simp add: renderFile_def Let_def cong: sum.case_cong)

lemma renderFiles_siteUrl:
  "renderFiles P (config\<lparr>siteUrl := u\<rparr>) bp disk nav cm sl files
   = renderFiles P config bp disk nav cm sl files"
  by (induction files) (simp_all add: renderFile_siteUrl split: sum.splits)

lemma labelPageOps_siteUrl:
  "labelPageOps P (config\<lparr>siteUrl := u\<rparr>) bp nav sl = labelPageOps P config bp nav sl"
proof
  fix entry
  show "labelPageOps P (config\<lparr>siteUrl := u\<rparr>) bp nav sl entry
        = labelPageOps P config bp nav sl entry"
    by (cases entry) (simp add: labelPageOps_def Let_def)
qed

lemma generateLabelIndexPages_siteUrl:
  "generateLabelIndexPages P (config\<lparr>siteUrl := u\<rparr>) bp idx nav sl
   = generateLabelIndexPages P config bp idx nav sl"
  by (simp add: generateLabelIndexPages_def labelPageOps_siteUrl)

lemma build_siteUrl:
  "build P (config\<lparr>siteUrl := u\<rparr>) bp disk files = build P config bp disk files"
  by (simp add: build_def renderFiles_siteUrl generateLabelIndexPages_siteUrl Let_def
      split: sum.splits prod.splits option.splits)

text \<open>
  What the two generators give for the site address \<^verbatim>\<open>https://example.com\<close> and a page index
  of the home page: the texts a build with that address would have to write.
\<close>

lemma seo_texts:
  "generateRobotsTxt ''https://example.com'' []
     = ''User-agent: *'' @ nl @ ''Allow: /'' @ nl @ nl
       @ ''Sitemap: https://example.com/sitemap.xml'' @ nl
   \<and> stringIncludes
       (generateSitemap [\<lparr>pie_url = ''/'', pie_title = ''Home'', pie_description = [],
                           pie_labels = [], pie_category = [], pie_date = None\<rparr>]
          ''https://example.com'' [])
       ''<loc>https://example.com/</loc>''"
  by code_simp

text \<open>
  C2. A build whose configuration names the site address \<^verbatim>\<open>https://example.com\<close>, over the
  home page alone, is not ended by an exception, and the files it has written are the
  page and the page index. There is no sitemap and no robots file among them.
\<close>

theorem build_writes_no_sitemap:
  \<open>snd (build sampleCollaborators (sampleConfig\<lparr>siteUrl := Some ''https://example.com''\<rparr>) []
          sampleDisk [homeFile]) = None
   \<and> fst (build sampleCollaborators (sampleConfig\<lparr>siteUrl := Some ''https://example.com''\<rparr>) []
            sampleDisk [homeFile])
     = [Mkdir ''dist'', Mkdir ''dist'',
        WriteFile ''dist/index.html''
          (renderPage sampleCollaborators
             \<lparr>pd_title = Str ''Home'', pd_content = ''<p># Home</p>'', pd_path = ''index.md'',
              pd_description = Undefined, pd_keywords = Undefined,
              pd_frontmatter = Some (fst (projr (sampleParseFrontmatter homeDocument))),
              pd_navigation = Some [\<lparr>nav_label = Str ''Home'', nav_href = ''/'',
                                      nav_active = Some True, nav_hxBoost = None,
                                      nav_order = Some 1\<rparr>],
              pd_cssFiles = None, pd_jsFiles = None, pd_siteLabels = Some [''shared''],
              pd_basePath = Some []\<rparr>),
        Mkdir ''dist/fragments'',
        WriteFile ''dist/fragments/page-index.json'' ''[{"url":"/"}]'']
   \<and> writtenPaths (fst (build sampleCollaborators
                          (sampleConfig\<lparr>siteUrl := Some ''https://example.com''\<rparr>) []
                          sampleDisk [homeFile]))
     = [''dist/index.html'', ''dist/fragments/page-index.json'']\<close>
  by code_simp

text \<open>
  C3. A label that one page carries, but lists twice, gets a listing page: the pages of a
  label are counted by the entries pushed, once for every time a page lists the label,
  not by the pages that carry it.
\<close>

theorem label_page_for_repeated_label:
  "length (filter (\<lambda>entry. ''solo'' \<in> set (pie_labels entry)) [soloEntry]) = 1
   \<and> writtenPaths (generateLabelIndexPages sampleCollaborators sampleConfig [] [soloEntry] [] [])
     = [''dist/label/solo/index.html'']"
  by code_simp

end
